theory Spec2Isabelle
  imports Complex_Main "HOL-Library.Product_Lexorder"
begin

section \<open>Values, rows and metadata\<close>

text \<open>
  A pandas cell is either null (\<open>None\<close>, \<open>NaN\<close>, \<open>NaT\<close>), a number (the cells of a
  column whose dtype is numeric) or a string (the cells of an \<open>object\<close> column). A row
  is the association of column names to cells; a DataFrame is its column index and its
  rows in source order.
\<close>

datatype cell = Null | Num rat | Str string

type_synonym row = "(string \<times> cell) list"

record dataframe =
  df_columns :: "string list"
  df_rows :: "row list"

text \<open>\<open>df.empty\<close>: no rows or no columns.\<close>

definition df_empty :: "dataframe \<Rightarrow> bool" where
  "df_empty df \<longleftrightarrow> df_rows df = [] \<or> df_columns df = []"

definition cell_of :: "row \<Rightarrow> string \<Rightarrow> cell" where
  "cell_of r c = (case map_of r c of None \<Rightarrow> Null | Some v \<Rightarrow> v)"

definition key_of :: "string list \<Rightarrow> row \<Rightarrow> cell list" where
  "key_of ks r = map (cell_of r) ks"

text \<open>
  Exceptions of the Python code are values. \<open>StoreError\<close> is any exception the database
  driver raises when the backing store rejects a statement. The string of a \<open>KeyError\<close>
  that pandas raises for a list of labels only names the argument concerned.
\<close>

datatype pyerror =
    ValueError string
  | TypeError string
  | IndexError string
  | KeyError string
  | StoreError string

fun str_exc :: "pyerror \<Rightarrow> string" where
  "str_exc (ValueError m) = m"
| "str_exc (TypeError m) = m"
| "str_exc (IndexError m) = m"
| "str_exc (KeyError m) = m"
| "str_exc (StoreError m) = m"

text \<open>
  One row of the \<open>Metadata\<close> table, with exactly the columns that
  \<open>load_metadata_df\<close> inserts (there is no \<open>ReferenceSchema\<close> column). Integer flags
  and the reference table are nullable.
\<close>

record metadata =
  SourceColumnName :: string
  TargetColumnName :: string
  TargetDataType :: string
  Length :: "int option"
  IsPK :: "int option"
  IsFK :: "int option"
  IsNullable :: "int option"
  ReferenceTable :: "string option"

text \<open>\<open>int(x or d)\<close> on a nullable integer: null and zero are falsy.\<close>

definition int_or :: "int option \<Rightarrow> int \<Rightarrow> int" where
  "int_or x d = (case x of None \<Rightarrow> d | Some v \<Rightarrow> if v = 0 then d else v)"

subsection \<open>ASCII case conversion and number rendering\<close>

definition lowers :: string where
  "lowers = ''abcdefghijklmnopqrstuvwxyz''"

definition uppers :: string where
  "uppers = ''ABCDEFGHIJKLMNOPQRSTUVWXYZ''"

definition upper_char :: "char \<Rightarrow> char" where
  "upper_char c = (case map_of (zip lowers uppers) c of Some u \<Rightarrow> u | None \<Rightarrow> c)"

definition lower_char :: "char \<Rightarrow> char" where
  "lower_char c = (case map_of (zip uppers lowers) c of Some l \<Rightarrow> l | None \<Rightarrow> c)"

definition upper :: "string \<Rightarrow> string" where
  "upper s = map upper_char s"

definition lower :: "string \<Rightarrow> string" where
  "lower s = map lower_char s"

fun str_nat :: "nat \<Rightarrow> string" where
  "str_nat n =
     (if n < 10 then [''0123456789'' ! n]
      else str_nat (n div 10) @ [''0123456789'' ! (n mod 10)])"

definition str_int :: "int \<Rightarrow> string" where
  "str_int i = (if i < 0 then CHR ''-'' # str_nat (nat (- i)) else str_nat (nat i))"

section \<open>Foreign-key references: DDL synthesis and Raw-to-Curated enforcement\<close>

text \<open>
  \<open>_foreign_key_clauses\<close> (create_ddl.py): a row is an FK row when
  \<open>int(r.get("IsFK") or 0) == 1 and r.get("ReferenceTable")\<close>. Its reference is parsed
  with \<open>ref.split(".", 1)\<close> when it contains a dot, and defaults to schema \<open>dbo\<close>
  otherwise. The key is (column, schema, table).
\<close>

definition ddl_is_fk :: "metadata \<Rightarrow> bool" where
  "ddl_is_fk r \<longleftrightarrow>
     int_or (IsFK r) 0 = 1 \<and> (case ReferenceTable r of None \<Rightarrow> False | Some t \<Rightarrow> t \<noteq> [])"

definition split_ref :: "string \<Rightarrow> string \<times> string" where
  "split_ref rf =
     (if CHR ''.'' \<in> set rf
      then (takeWhile (\<lambda>c. c \<noteq> CHR ''.'') rf, tl (dropWhile (\<lambda>c. c \<noteq> CHR ''.'') rf))
      else (''dbo'', rf))"

definition ddl_fk_key :: "metadata \<Rightarrow> string \<times> string \<times> string" where
  "ddl_fk_key r =
     (let (ref_schema, ref_table) = split_ref (case ReferenceTable r of None \<Rightarrow> [] | Some t \<Rightarrow> t)
      in (TargetColumnName r, ref_schema, ref_table))"

definition fk_clause :: "string \<times> string \<times> string \<Rightarrow> string" where
  "fk_clause k =
     (case k of (col, ref_schema, ref_table) \<Rightarrow>
        ''FOREIGN KEY (['' @ col @ '']) REFERENCES ['' @ ref_schema @ ''].['' @ ref_table
          @ '']('' @ ''['' @ col @ ''])'')"

text \<open>
  The loop of \<open>_foreign_key_clauses\<close>: \<open>exists\<close> is \<open>_table_exists(engine, _, _)\<close>, and
  \<open>seen\<close> the set \<open>seen_fks\<close>. A key already seen is skipped, a key whose referenced
  table does not exist is skipped after being recorded.
\<close>

fun fk_clauses_loop ::
  "(string \<Rightarrow> string \<Rightarrow> bool) \<Rightarrow> (string \<times> string \<times> string) list \<Rightarrow> metadata list \<Rightarrow> string list"
where
  "fk_clauses_loop exists seen [] = []"
| "fk_clauses_loop exists seen (r # rs) =
     (if ddl_is_fk r then
        (let k = ddl_fk_key r in
         if k \<in> set seen then fk_clauses_loop exists seen rs
         else if \<not> exists (fst (snd k)) (snd (snd k)) then fk_clauses_loop exists (k # seen) rs
         else fk_clause k # fk_clauses_loop exists (k # seen) rs)
      else fk_clauses_loop exists seen rs)"

definition foreign_key_clauses :: "(string \<Rightarrow> string \<Rightarrow> bool) \<Rightarrow> metadata list \<Rightarrow> string list" where
  "foreign_key_clauses exists metadata_rows = fk_clauses_loop exists [] metadata_rows"

text \<open>
  \<open>enforce_pk_fk\<close> (raw_curated.py), foreign-key part: a row is an FK rule when
  \<open>m.get("IsFK") == 1 and m.get("ReferenceTable") not in (None, "NULL", "")\<close>. The rule
  queries \<open>[ref_schema].[ref_table]\<close> for column \<open>col\<close>, where
  \<open>ref_schema = rule.get("ReferenceSchema", "curated")\<close>: metadata rows have no such
  key, so the default is taken.
\<close>

definition fk_rules :: "metadata list \<Rightarrow> metadata list" where
  "fk_rules md =
     filter (\<lambda>m. IsFK m = Some 1 \<and>
                 (case ReferenceTable m of None \<Rightarrow> False | Some t \<Rightarrow> t \<noteq> ''NULL'' \<and> t \<noteq> [])) md"

definition fk_rule_query :: "metadata \<Rightarrow> string \<times> string \<times> string" where
  "fk_rule_query rule =
     (TargetColumnName rule, ''curated'',
      (case ReferenceTable rule of None \<Rightarrow> [] | Some t \<Rightarrow> t))"

section \<open>Constraint enforcement (raw_curated.py)\<close>

text \<open>
  The frames below are the batch after \<open>clean_dataframe\<close> and
  \<open>cast_dataframe_types\<close>: the cells of a column that was cast to a numeric dtype are
  \<open>Num\<close> (or null), the cells of every other column are \<open>Str\<close> (or null), so that
  \<open>select_dtypes(include=["number"])\<close> selects exactly the columns holding \<open>Num\<close>
  cells. The printed audit summary is not part of the returned value and is left out.
\<close>

definition negative_cell :: "cell \<Rightarrow> bool" where
  "negative_cell v = (case v of Num x \<Rightarrow> x < 0 | _ \<Rightarrow> False)"

definition has_negative :: "string list \<Rightarrow> row \<Rightarrow> bool" where
  "has_negative cols r = list_ex (\<lambda>c. negative_cell (cell_of r c)) cols"

definition enforce_no_negative :: "dataframe \<Rightarrow> dataframe" where
  "enforce_no_negative df =
     df\<lparr>df_rows := filter (\<lambda>r. \<not> has_negative (df_columns df) r) (df_rows df)\<rparr>"

text \<open>\<open>df.dropna(subset=cols)\<close>: a row is dropped when any of the columns is null.\<close>

definition has_null :: "string list \<Rightarrow> row \<Rightarrow> bool" where
  "has_null cols r = list_ex (\<lambda>c. cell_of r c = Null) cols"

definition dropna :: "string list \<Rightarrow> row list \<Rightarrow> row list" where
  "dropna cols rs = filter (\<lambda>r. \<not> has_null cols r) rs"

text \<open>
  \<open>df.drop_duplicates(subset=cols, keep="last")\<close>: a row stays when no later row has
  the same values in \<open>cols\<close>; the rows that stay keep their order.
\<close>

fun drop_duplicates_last :: "string list \<Rightarrow> row list \<Rightarrow> row list" where
  "drop_duplicates_last cols [] = []"
| "drop_duplicates_last cols (r # rs) =
     (if key_of cols r \<in> set (map (key_of cols) rs) then drop_duplicates_last cols rs
      else r # drop_duplicates_last cols rs)"

definition pk_cols_of :: "metadata list \<Rightarrow> string list" where
  "pk_cols_of md = map TargetColumnName (filter (\<lambda>m. IsPK m = Some 1) md)"

text \<open>
  Primary-key block of \<open>enforce_pk_fk\<close>. \<open>dropna\<close> raises \<open>KeyError\<close> when a key
  column is not a column of the frame.
\<close>

definition pk_enforcement :: "dataframe \<Rightarrow> metadata list \<Rightarrow> pyerror + dataframe" where
  "pk_enforcement df md =
     (let pk_cols = pk_cols_of md in
      if pk_cols = [] then Inr df
      else if \<not> set pk_cols \<subseteq> set (df_columns df) then Inl (KeyError ''pk_cols'')
      else Inr (df\<lparr>df_rows := drop_duplicates_last pk_cols (dropna pk_cols (df_rows df))\<rparr>))"

text \<open>NOT NULL block: one \<open>dropna\<close> per flagged column that the frame has.\<close>

definition not_null_cols_of :: "metadata list \<Rightarrow> string list" where
  "not_null_cols_of md = map TargetColumnName (filter (\<lambda>m. IsNullable m = Some 0) md)"

fun not_null_loop :: "string list \<Rightarrow> dataframe \<Rightarrow> dataframe" where
  "not_null_loop [] df = df"
| "not_null_loop (c # cs) df =
     (if c \<in> set (df_columns df)
      then not_null_loop cs (df\<lparr>df_rows := dropna [c] (df_rows df)\<rparr>)
      else not_null_loop cs df)"

definition not_null_enforcement :: "dataframe \<Rightarrow> metadata list \<Rightarrow> dataframe" where
  "not_null_enforcement df md = not_null_loop (not_null_cols_of md) df"

text \<open>
  Foreign-key block. \<open>lookup schema table col\<close> is
  \<open>SELECT DISTINCT [col] FROM [schema].[table]\<close>: the values, or the exception the store
  raises. Any exception inside the \<open>try\<close> (the query, or \<open>df[col]\<close> on a column the
  frame lacks) skips the rule and leaves the frame as it is. Null is never a valid
  value, since the referenced values go through \<open>dropna()\<close>.
\<close>

type_synonym fk_lookup = "string \<Rightarrow> string \<Rightarrow> string \<Rightarrow> pyerror + cell list"

definition fk_filter :: "fk_lookup \<Rightarrow> metadata \<Rightarrow> dataframe \<Rightarrow> dataframe" where
  "fk_filter lookup rule df =
     (case fk_rule_query rule of (col, ref_schema, ref_table) \<Rightarrow>
        (case lookup ref_schema ref_table col of
           Inl e \<Rightarrow> df
         | Inr vals \<Rightarrow>
             if col \<notin> set (df_columns df) then df
             else df\<lparr>df_rows :=
               filter (\<lambda>r. cell_of r col \<in> set (filter (\<lambda>v. v \<noteq> Null) vals)) (df_rows df)\<rparr>))"

fun fk_loop :: "fk_lookup \<Rightarrow> metadata list \<Rightarrow> dataframe \<Rightarrow> dataframe" where
  "fk_loop lookup [] df = df"
| "fk_loop lookup (rule # rules) df = fk_loop lookup rules (fk_filter lookup rule df)"

definition fk_enforcement :: "fk_lookup \<Rightarrow> dataframe \<Rightarrow> metadata list \<Rightarrow> dataframe" where
  "fk_enforcement lookup df md = fk_loop lookup (fk_rules md) df"

definition enforce_pk_fk :: "fk_lookup \<Rightarrow> dataframe \<Rightarrow> metadata list \<Rightarrow> pyerror + dataframe" where
  "enforce_pk_fk lookup df md =
     (case pk_enforcement df md of
        Inl e \<Rightarrow> Inl e
      | Inr df1 \<Rightarrow> Inr (fk_enforcement lookup (not_null_enforcement df1 md) md))"

text \<open>
  Steps 3 and 4 of \<open>load_raw_to_curated\<close> after cleaning and casting:
  \<open>df = enforce_no_negative(df)\<close>, then \<open>df = enforce_pk_fk(engine, df, metadata)\<close>.
\<close>

definition load_raw_to_curated_constraints ::
  "fk_lookup \<Rightarrow> dataframe \<Rightarrow> metadata list \<Rightarrow> pyerror + dataframe" where
  "load_raw_to_curated_constraints lookup df md = enforce_pk_fk lookup (enforce_no_negative df) md"

text \<open>
  The order the specification gives for the four rules (primary key, not-null, foreign
  key, and the no-negative filter last), written from its words for comparison with the
  order of the code.
\<close>

definition spec_rule_order :: "fk_lookup \<Rightarrow> dataframe \<Rightarrow> metadata list \<Rightarrow> pyerror + dataframe" where
  "spec_rule_order lookup df md =
     (case enforce_pk_fk lookup df md of
        Inl e \<Rightarrow> Inl e
      | Inr df1 \<Rightarrow> Inr (enforce_no_negative df1))"

section \<open>The merge statements of the backing store\<close>

text \<open>
  The SQL that \<open>scd_type.py\<close> and \<open>load_type.py\<close> send is executed by the backing
  store. Its semantics is modelled on row lists: a comparison \<open>t.[k] = s.[k]\<close> holds
  only between equal non-null values, a literal or staged value is taken to convert back
  to the value it was rendered from, and a statement set run inside one
  \<open>engine.begin()\<close> block either yields the new rows or an error that leaves the table
  as it was.
\<close>

definition key_match :: "string list \<Rightarrow> row \<Rightarrow> row \<Rightarrow> bool" where
  "key_match ks t s = list_all (\<lambda>k. cell_of t k \<noteq> Null \<and> cell_of t k = cell_of s k) ks"

definition non_key_cols :: "string list \<Rightarrow> string list \<Rightarrow> string list" where
  "non_key_cols key_columns target_cols = filter (\<lambda>c. c \<notin> set key_columns) target_cols"

definition project :: "string list \<Rightarrow> row \<Rightarrow> row" where
  "project cols s = map (\<lambda>c. (c, cell_of s c)) cols"

definition update_cols :: "string list \<Rightarrow> row \<Rightarrow> row \<Rightarrow> row" where
  "update_cols cols s t = map (\<lambda>(c, v). if c \<in> set cols then (c, cell_of s c) else (c, v)) t"

text \<open>
  \<open>MERGE target AS t USING source AS s(target_cols) ON keys WHEN MATCHED THEN UPDATE
  SET non-key columns WHEN NOT MATCHED THEN INSERT\<close>. The store refuses the statement
  when the \<open>ON\<close> or \<open>SET\<close> list or the \<open>VALUES\<close> list is empty, when a key is not
  one of the source columns, or when a source column is named twice; it also refuses a
  target row matched by more than one source row. All matching is against the target as
  it was before the statement.
\<close>

definition statement_ok :: "string list \<Rightarrow> string list \<Rightarrow> row list \<Rightarrow> bool" where
  "statement_ok key_columns target_cols source \<longleftrightarrow>
     key_columns \<noteq> [] \<and> non_key_cols key_columns target_cols \<noteq> [] \<and> source \<noteq> []
     \<and> set key_columns \<subseteq> set target_cols \<and> distinct target_cols"

definition sql_merge ::
  "string list \<Rightarrow> string list \<Rightarrow> row list \<Rightarrow> row list \<Rightarrow> pyerror + row list" where
  "sql_merge key_columns target_cols source target =
     (if \<not> statement_ok key_columns target_cols source
      then Inl (StoreError ''Incorrect syntax or invalid column name'')
      else if list_ex (\<lambda>t. 1 < length (filter (key_match key_columns t) source)) target
      then Inl (StoreError ''The MERGE statement attempted to UPDATE or DELETE the same row more than once'')
      else Inr (map (\<lambda>t. case find (key_match key_columns t) source of
                            None \<Rightarrow> t
                          | Some s \<Rightarrow> update_cols (non_key_cols key_columns target_cols) s t) target
                @ map (project target_cols)
                    (filter (\<lambda>s. \<not> list_ex (\<lambda>t. key_match key_columns t s) target) source)))"

section \<open>SCD merges (scd_type.py)\<close>

text \<open>
  Both merges build their \<open>VALUES\<close> list by pasting \<open>str(value)\<close> between quotes,
  unescaped, and hand the text to \<open>sqlalchemy.text\<close>. On a frame with rows,
  \<open>row[col]\<close> raises \<open>KeyError\<close> for a column the frame lacks, and for a label the
  frame has twice it is a series, whose truth value \<open>if pd.notna(...)\<close> refuses.

  The store reads back the rows that were rendered when every string value is plain:
  printable ASCII, no quote character, and no colon except after a letter, a digit or
  an underscore. A quote character ends the literal early; a colon elsewhere can be taken
  by \<open>text\<close> for a bound parameter or lose a backslash before it; other characters
  depend on the code page of the store. For a batch with a value that is not plain the
  statement that reaches the store may be another one, and what it does to the table (an
  error, other source rows, other values, any other effect) is not modelled but taken as
  the parameter \<open>injected\<close>, applied to the table and the rendered rows.
\<close>

definition values_clause :: "dataframe \<Rightarrow> string list \<Rightarrow> pyerror + row list" where
  "values_clause df target_cols =
     (if df_rows df = [] then Inr []
      else (case find (\<lambda>c. count_list (df_columns df) c \<noteq> 1) target_cols of
              None \<Rightarrow> Inr (map (project target_cols) (df_rows df))
            | Some c \<Rightarrow>
                if c \<in> set (df_columns df)
                then Inl (ValueError ''The truth value of a Series is ambiguous. Use a.empty, a.bool(), a.item(), a.any() or a.all().'')
                else Inl (KeyError ([CHR 0x27] @ c @ [CHR 0x27]))))"

definition word_char :: "char \<Rightarrow> bool" where
  "word_char c \<longleftrightarrow>
     c \<in> set ''abcdefghijklmnopqrstuvwxyzABCDEFGHIJKLMNOPQRSTUVWXYZ0123456789_''"

fun colon_after :: "char \<Rightarrow> string \<Rightarrow> bool" where
  "colon_after p [] = False"
| "colon_after p (c # cs) = (c = CHR '':'' \<and> \<not> word_char p \<or> colon_after c cs)"

definition plain_text :: "string \<Rightarrow> bool" where
  "plain_text s \<longleftrightarrow>
     list_all (\<lambda>c. 32 \<le> (of_char c :: nat) \<and> (of_char c :: nat) < 127 \<and> c \<noteq> CHR 0x27) s
     \<and> \<not> colon_after CHR '' '' s"

definition unsafe_cell :: "cell \<Rightarrow> bool" where
  "unsafe_cell v = (case v of Str s \<Rightarrow> \<not> plain_text s | _ \<Rightarrow> False)"

definition breaks_out :: "row list \<Rightarrow> bool" where
  "breaks_out vals = list_ex (\<lambda>r. list_ex (\<lambda>cv. unsafe_cell (snd cv)) r) vals"

type_synonym injection = "row list \<Rightarrow> row list \<Rightarrow> pyerror + row list"

text \<open>
  \<open>scd1_merge\<close>: \<open>values_clause\<close> is built from every row of \<open>df\<close>; the frame is
  deduplicated only afterwards, and the deduplicated frame is not used again. On a frame
  that is not empty \<open>drop_duplicates\<close> raises \<open>KeyError\<close> for a key column the frame
  lacks and \<open>ValueError\<close> for an empty list of keys. The \<open>MERGE\<close> runs over
  \<open>values_clause\<close>.
\<close>

definition scd1_merge ::
  "injection \<Rightarrow> row list \<Rightarrow> dataframe \<Rightarrow> string list \<Rightarrow> string list \<Rightarrow> pyerror + row list" where
  "scd1_merge injected target df key_columns target_cols =
     (case values_clause df target_cols of
        Inl e \<Rightarrow> Inl e
      | Inr vals \<Rightarrow>
          if \<not> df_empty df \<and> \<not> set key_columns \<subseteq> set (df_columns df)
          then Inl (KeyError ''key_columns'')
          else if \<not> df_empty df \<and> key_columns = []
          then Inl (ValueError ''not enough values to unpack (expected 2, got 0)'')
          else
            (let df' = df\<lparr>df_rows := drop_duplicates_last key_columns (df_rows df)\<rparr>
             in if breaks_out vals then injected target vals
                else sql_merge key_columns target_cols vals target))"

text \<open>
  \<open>scd2_merge\<close>. A stored row is current when its \<open>IsCurrent\<close> column is 1. The change
  check of a non-key column is \<open>t <> s OR (t IS NULL AND s IS NOT NULL) OR (t IS NOT
  NULL AND s IS NULL)\<close>, that is, the two cells differ. Each of the two statements reads
  \<open>GETDATE()\<close> itself: \<open>now_close\<close> in the \<open>UPDATE\<close>, \<open>now_open\<close> in the \<open>INSERT\<close>.
\<close>

definition is_current :: "row \<Rightarrow> bool" where
  "is_current t \<longleftrightarrow> cell_of t ''IsCurrent'' = Num 1"

definition changed :: "string list \<Rightarrow> row \<Rightarrow> row \<Rightarrow> bool" where
  "changed cols t s = list_ex (\<lambda>c. cell_of t c \<noteq> cell_of s c) cols"

definition close_row :: "cell \<Rightarrow> row \<Rightarrow> row" where
  "close_row now t =
     map (\<lambda>(c, v). if c = ''IsCurrent'' then (c, Num 0)
                   else if c = ''EndTime'' then (c, now) else (c, v)) t"

text \<open>Step 1: the \<open>UPDATE\<close> closes every current row that joins a changed source row.\<close>

definition scd2_update :: "string list \<Rightarrow> string list \<Rightarrow> cell \<Rightarrow> row list \<Rightarrow> row list \<Rightarrow> row list" where
  "scd2_update key_columns cols now source target =
     map (\<lambda>t. if is_current t \<and> list_ex (\<lambda>s. key_match key_columns t s \<and> changed cols t s) source
              then close_row now t else t) target"

definition new_version :: "string list \<Rightarrow> cell \<Rightarrow> row \<Rightarrow> row" where
  "new_version target_cols now s =
     project target_cols s @ [(''StartTime'', now), (''EndTime'', Null), (''IsCurrent'', Num 1)]"

text \<open>
  Step 2: the \<open>INSERT ... SELECT ... FROM source s LEFT JOIN target t ON keys AND
  t.IsCurrent = 1 WHERE t.key IS NULL OR changed\<close>. A source row that joins no current
  row yields one row; one that joins current rows yields a row per joined row that
  differs from it.
\<close>

definition scd2_insert_rows ::
  "string list \<Rightarrow> string list \<Rightarrow> string list \<Rightarrow> cell \<Rightarrow> row list \<Rightarrow> row \<Rightarrow> row list" where
  "scd2_insert_rows key_columns target_cols cols now target s =
     (let joined = filter (\<lambda>t. is_current t \<and> key_match key_columns t s) target in
      if joined = [] then [new_version target_cols now s]
      else map (\<lambda>t. new_version target_cols now s) (filter (\<lambda>t. changed cols t s) joined))"

text \<open>
  The two statements run in one transaction. \<open>key_columns[0]\<close> raises \<open>IndexError\<close>
  while the statements are built; the store refuses a malformed statement, and an
  \<open>INSERT\<close> whose column list names a history column twice.
\<close>

definition history_cols :: "string list" where
  "history_cols = [''StartTime'', ''EndTime'', ''IsCurrent'']"

definition scd2_merge ::
  "injection \<Rightarrow> cell \<Rightarrow> cell \<Rightarrow> row list \<Rightarrow> dataframe \<Rightarrow> string list \<Rightarrow> string list
   \<Rightarrow> pyerror + row list" where
  "scd2_merge injected now_close now_open target df key_columns target_cols =
     (case values_clause df target_cols of
        Inl e \<Rightarrow> Inl e
      | Inr vals \<Rightarrow>
          if key_columns = [] then Inl (IndexError ''list index out of range'')
          else if breaks_out vals then injected target vals
          else if \<not> statement_ok key_columns target_cols vals
          then Inl (StoreError ''Incorrect syntax or invalid column name'')
          else if list_ex (\<lambda>c. c \<in> set target_cols) history_cols
          then Inl (StoreError ''A column name is specified more than once'')
          else
            (let cols = non_key_cols key_columns target_cols;
                 closed = scd2_update key_columns cols now_close vals target
             in Inr (closed @ concat (map (scd2_insert_rows key_columns target_cols cols now_open closed) vals))))"

text \<open>
  A sequence of \<open>scd2_merge\<close> calls on one table, each with its timestamps and its
  batch; a call that raises leaves the table as it was (the transaction rolls back).
\<close>

fun scd2_run ::
  "injection \<Rightarrow> string list \<Rightarrow> string list \<Rightarrow> row list \<Rightarrow> (cell \<times> cell \<times> dataframe) list \<Rightarrow> row list"
where
  "scd2_run injected key_columns target_cols target [] = target"
| "scd2_run injected key_columns target_cols target ((now_close, now_open, df) # calls) =
     scd2_run injected key_columns target_cols
       (case scd2_merge injected now_close now_open target df key_columns target_cols of
          Inl e \<Rightarrow> target
        | Inr target' \<Rightarrow> target') calls"

text \<open>Every key has at most one current row: the keys of the current rows are distinct.\<close>

definition single_current :: "string list \<Rightarrow> row list \<Rightarrow> bool" where
  "single_current key_columns target \<longleftrightarrow> distinct (map (key_of key_columns) (filter is_current target))"

text \<open>
  A batch with one row per key, no null in a key column, and only plain strings among
  the values that are rendered.
\<close>

definition batch_ok :: "string list \<Rightarrow> string list \<Rightarrow> dataframe \<Rightarrow> bool" where
  "batch_ok key_columns target_cols df \<longleftrightarrow>
     distinct (map (key_of key_columns) (df_rows df))
     \<and> list_all (\<lambda>s. \<not> has_null key_columns s) (df_rows df)
     \<and> \<not> breaks_out (map (project target_cols) (df_rows df))"

section \<open>Selecting the files of an incremental Source-to-Raw load (source_raw.py)\<close>

text \<open>
  A file name is a Python string: a list of Unicode code points. Two things the code
  takes from its platform are parameters here. \<open>decimal\<close> is the Unicode database of
  the interpreter: the value of a code point as a decimal digit, or \<open>None\<close> when it is
  not one; the digit class of an \<open>re\<close> pattern over \<open>str\<close> matches exactly the code
  points that have a value, and \<open>int()\<close> reads them with that value. \<open>os_basename\<close> is
  \<open>os.path.basename\<close> of the platform (\<open>posixpath\<close> or \<open>ntpath\<close>).

  A \<open>datetime\<close> is its date (year, month, day) and the time of day in microseconds;
  the order is the order of the pairs, date first.
\<close>

type_synonym ustring = "nat list"

type_synonym decimal_table = "nat \<Rightarrow> nat option"

type_synonym datetime = "(nat \<times> nat \<times> nat) \<times> nat"

definition ustr :: "string \<Rightarrow> ustring" where
  "ustr s = map of_char s"

text \<open>\<open>posixpath.basename\<close>: what follows the last slash (code point 47).\<close>

definition posix_basename :: "ustring \<Rightarrow> ustring" where
  "posix_basename p = rev (takeWhile (\<lambda>c. c \<noteq> 47) (rev p))"

definition digit_val :: "decimal_table \<Rightarrow> nat \<Rightarrow> nat" where
  "digit_val decimal c = (case decimal c of Some n \<Rightarrow> n | None \<Rightarrow> 0)"

fun int_of_digits :: "decimal_table \<Rightarrow> nat \<Rightarrow> ustring \<Rightarrow> nat" where
  "int_of_digits decimal acc [] = acc"
| "int_of_digits decimal acc (c # cs) = int_of_digits decimal (acc * 10 + digit_val decimal c) cs"

text \<open>
  \<open>DATE_PATTERN\<close> matched at the start of a string: four digits, an underscore (code
  point 95), two digits, an underscore, two digits.
\<close>

fun match_date :: "decimal_table \<Rightarrow> ustring \<Rightarrow> (nat \<times> nat \<times> nat) option" where
  "match_date decimal (y1 # y2 # y3 # y4 # u1 # m1 # m2 # u2 # d1 # d2 # rest) =
     (if list_all (\<lambda>c. decimal c \<noteq> None) [y1, y2, y3, y4, m1, m2, d1, d2] \<and> u1 = 95 \<and> u2 = 95
      then Some (int_of_digits decimal 0 [y1, y2, y3, y4], int_of_digits decimal 0 [m1, m2],
                 int_of_digits decimal 0 [d1, d2])
      else None)"
| "match_date decimal s = None"

text \<open>\<open>DATE_PATTERN.search\<close>: the leftmost match.\<close>

fun date_search :: "decimal_table \<Rightarrow> ustring \<Rightarrow> (nat \<times> nat \<times> nat) option" where
  "date_search decimal [] = None"
| "date_search decimal (c # cs) =
     (case match_date decimal (c # cs) of Some d \<Rightarrow> Some d | None \<Rightarrow> date_search decimal cs)"

definition is_leap :: "nat \<Rightarrow> bool" where
  "is_leap y \<longleftrightarrow> y mod 4 = 0 \<and> (y mod 100 \<noteq> 0 \<or> y mod 400 = 0)"

definition days_in_month :: "nat \<Rightarrow> nat \<Rightarrow> nat" where
  "days_in_month y m =
     (if m = 2 then (if is_leap y then 29 else 28)
      else if m \<in> {4, 6, 9, 11} then 30 else 31)"

text \<open>\<open>datetime(year, month, day)\<close> raises \<open>ValueError\<close> outside the calendar.\<close>

definition mk_datetime :: "nat \<Rightarrow> nat \<Rightarrow> nat \<Rightarrow> pyerror + datetime" where
  "mk_datetime y m d =
     (if y < 1 then Inl (ValueError (''year '' @ str_nat y @ '' is out of range''))
      else if m < 1 \<or> 12 < m then Inl (ValueError ''month must be in 1..12'')
      else if d < 1 \<or> days_in_month y m < d then Inl (ValueError ''day is out of range for month'')
      else Inr ((y, m, d), 0))"

text \<open>
  The loop over \<open>files\<close> of the incremental branch: a file whose basename has no match
  is passed over; a match is turned into a date (which may raise) and kept when the date
  is later than the watermark.
\<close>

fun new_files_loop ::
  "decimal_table \<Rightarrow> (ustring \<Rightarrow> ustring) \<Rightarrow> datetime \<Rightarrow> ustring list \<Rightarrow> pyerror + (ustring \<times> datetime) list"
where
  "new_files_loop decimal os_basename last_load_time [] = Inr []"
| "new_files_loop decimal os_basename last_load_time (f # fs) =
     (case date_search decimal (os_basename f) of
        None \<Rightarrow> new_files_loop decimal os_basename last_load_time fs
      | Some (y, m, d) \<Rightarrow>
          (case mk_datetime y m d of
             Inl e \<Rightarrow> Inl e
           | Inr file_date \<Rightarrow>
               (case new_files_loop decimal os_basename last_load_time fs of
                  Inl e \<Rightarrow> Inl e
                | Inr rest \<Rightarrow>
                    Inr (if last_load_time < file_date then (f, file_date) # rest else rest))))"

text \<open>
  The files handed to \<open>process_files\<close>: the watermark read from the tracker (or
  1900-01-01 when there is none), the new files sorted by date (a stable sort).
\<close>

definition incremental_file_paths ::
  "decimal_table \<Rightarrow> (ustring \<Rightarrow> ustring) \<Rightarrow> datetime option \<Rightarrow> ustring list \<Rightarrow> pyerror + ustring list" where
  "incremental_file_paths decimal os_basename tracked files =
     (let last_load_time = (case tracked of None \<Rightarrow> ((1900, 1, 1), 0) | Some t \<Rightarrow> t) in
      case new_files_loop decimal os_basename last_load_time files of
        Inl e \<Rightarrow> Inl e
      | Inr new_files \<Rightarrow> Inr (map fst (sort_key snd new_files)))"

section \<open>The backing store\<close>

text \<open>
  The state behind the \<open>engine\<close>: the \<open>Config\<close> and \<open>Metadata\<close> tables, the data
  tables (their column definitions and rows, found by schema and table name without
  regard to case), the \<open>IncrementalTracker\<close> table keyed by (JobName, Stage), and the
  \<open>JobAudit\<close> table. Each \<open>engine.begin()\<close> block is a transaction of its own: it
  either commits at its end or leaves the state as it was.
\<close>

record config =
  JobName :: string
  SourceType :: string
  SourcePath :: string
  SourceSchema :: string
  SourceTable :: string
  TargetSchema :: string
  TargetTable :: string
  LoadType :: string
  SCDType :: "int option"

record audit_row =
  a_job :: string
  a_stage :: string
  a_start :: datetime
  a_end :: "datetime option"
  a_rows :: "int option"
  a_status :: string
  a_message :: "string option"

record sqltable =
  t_defs :: "string list"
  t_rows :: "row list"

record store =
  Config :: "config list"
  Metadata :: "(string \<times> metadata) list"
  tables :: "string \<times> string \<Rightarrow> sqltable option"
  IncrementalTracker :: "string \<times> string \<Rightarrow> datetime option"
  JobAudit :: "audit_row list"

text \<open>
  What the code cannot decide by itself: the clock of the process (\<open>datetime.now()\<close>),
  the clock of the store (\<open>GETDATE()\<close>, read by each statement), whether the store
  accepts a \<open>CREATE TABLE\<close> statement (\<open>None\<close>) or rejects it with a message,
  whether a table accepts a row that is written to it (constraints, type coercion), and
  what a merge statement does when a value breaks out of its quotes.
\<close>

record backend =
  clock :: datetime
  getdate_close :: cell
  getdate_open :: cell
  ddl_exec :: "string \<Rightarrow> string option"
  accepts :: "string \<times> string \<Rightarrow> row \<Rightarrow> bool"
  injected :: injection

definition tkey :: "string \<Rightarrow> string \<Rightarrow> string \<times> string" where
  "tkey schema table = (lower schema, lower table)"

definition table_exists :: "store \<Rightarrow> string \<Rightarrow> string \<Rightarrow> bool" where
  "table_exists st schema table \<longleftrightarrow> tables st (tkey schema table) \<noteq> None"

definition set_rows :: "store \<Rightarrow> string \<times> string \<Rightarrow> row list \<Rightarrow> store" where
  "set_rows st k rs =
     (case tables st k of
        None \<Rightarrow> st
      | Some t \<Rightarrow> st\<lparr>tables := (tables st)(k \<mapsto> t\<lparr>t_rows := rs\<rparr>)\<rparr>)"

definition fetch_config :: "store \<Rightarrow> string \<Rightarrow> config list" where
  "fetch_config st job_name = filter (\<lambda>c. JobName c = job_name) (Config st)"

definition fetch_metadata :: "store \<Rightarrow> string \<Rightarrow> metadata list" where
  "fetch_metadata st job_name = map snd (filter (\<lambda>jm. fst jm = job_name) (Metadata st))"

subsection \<open>audit.py\<close>

definition log_job_start :: "backend \<Rightarrow> store \<Rightarrow> string \<Rightarrow> string \<Rightarrow> store" where
  "log_job_start be st job_name stage =
     st\<lparr>JobAudit := JobAudit st @
        [\<lparr>a_job = job_name, a_stage = stage, a_start = clock be, a_end = None,
          a_rows = None, a_status = ''Running'', a_message = None\<rparr>]\<rparr>"

definition log_job_end ::
  "backend \<Rightarrow> store \<Rightarrow> string \<Rightarrow> string \<Rightarrow> int option \<Rightarrow> string \<Rightarrow> string option \<Rightarrow> store" where
  "log_job_end be st job_name stage row_count status message =
     st\<lparr>JobAudit :=
        map (\<lambda>a. if a_job a = job_name \<and> a_stage a = stage \<and> a_end a = None
                 then a\<lparr>a_end := Some (clock be), a_rows := row_count,
                        a_status := status, a_message := message\<rparr>
                 else a) (JobAudit st)\<rparr>"

subsection \<open>load_type.py\<close>

text \<open>\<open>sep.join(xs)\<close>.\<close>

fun intercalate :: "string \<Rightarrow> string list \<Rightarrow> string" where
  "intercalate sep [] = []"
| "intercalate sep [x] = x"
| "intercalate sep (x # y # ys) = x @ sep @ intercalate sep (y # ys)"

definition get_incremental_tracker :: "store \<Rightarrow> string \<Rightarrow> string \<Rightarrow> datetime option" where
  "get_incremental_tracker st job_name stage = IncrementalTracker st (job_name, stage)"

definition update_incremental_tracker :: "store \<Rightarrow> string \<Rightarrow> datetime \<Rightarrow> string \<Rightarrow> store" where
  "update_incremental_tracker st job_name new_value stage =
     st\<lparr>IncrementalTracker := (IncrementalTracker st)((job_name, stage) \<mapsto> new_value)\<rparr>"

text \<open>The result dictionary of a load; \<open>r_rows\<close> is absent in the error results.\<close>

record load_result =
  r_status :: string
  r_rows :: "nat option"
  r_message :: string

text \<open>
  \<open>full_load\<close>: the \<open>TRUNCATE\<close> runs and commits in its own \<open>engine.begin()\<close> block;
  \<open>df.to_sql(..., if_exists="append")\<close> follows in a transaction of its own, which the
  store rolls back as a whole when it rejects a row. Every exception becomes an error
  result.
\<close>

definition full_load :: "backend \<Rightarrow> store \<Rightarrow> dataframe \<Rightarrow> string \<Rightarrow> string \<Rightarrow> load_result \<times> store" where
  "full_load be st df schema table =
     (case tables st (tkey schema table) of
        None \<Rightarrow>
          (\<lparr>r_status = ''error'', r_rows = None, r_message = ''Cannot find the object''\<rparr>, st)
      | Some t \<Rightarrow>
          (let st1 = set_rows st (tkey schema table) [] in
           if \<not> df_empty df \<and> \<not> list_all (accepts be (tkey schema table)) (df_rows df)
           then (\<lparr>r_status = ''error'', r_rows = None,
                   r_message = ''The statement has been terminated''\<rparr>, st1)
           else
             (\<lparr>r_status = ''success'', r_rows = Some (length (df_rows df)),
               r_message = ''Full load completed: '' @ str_nat (length (df_rows df)) @ '' rows''\<rparr>,
              if df_empty df then st1 else set_rows st1 (tkey schema table) (df_rows df))))"

text \<open>
  \<open>incremental_load\<close>: the frame is cut to the metadata columns it has (for a frame
  whose labels are distinct these are the columns named; the cut of a frame with a label
  twice is not followed further); an empty frame returns at once. The staging table is
  dropped and created in one transaction (the store refuses a column list that names a
  column twice, or the statement for a reason of its own), the batch is appended to it
  in a transaction of its own, the \<open>MERGE\<close> into the target runs in a third
  transaction, and the tracker is written last. Every exception becomes an error result;
  what was committed before it stays.
\<close>

definition error_result :: "pyerror \<Rightarrow> load_result" where
  "error_result e = \<lparr>r_status = ''error'', r_rows = None, r_message = str_exc e\<rparr>"

definition cut_columns :: "metadata list \<Rightarrow> dataframe \<Rightarrow> string list" where
  "cut_columns metadata_rows df =
     filter (\<lambda>c. c \<in> set (df_columns df)) (map TargetColumnName metadata_rows)"

definition staged_rows :: "metadata list \<Rightarrow> dataframe \<Rightarrow> row list" where
  "staged_rows metadata_rows df = map (project (cut_columns metadata_rows df)) (df_rows df)"

definition staging_defs :: "string list \<Rightarrow> string list" where
  "staging_defs target_cols = map (\<lambda>c. ''['' @ c @ ''] NVARCHAR(MAX)'') target_cols"

definition staging_sql :: "string \<Rightarrow> string \<Rightarrow> string list \<Rightarrow> string" where
  "staging_sql schema staging_table target_cols =
     ''CREATE TABLE ['' @ schema @ ''].['' @ staging_table @ ''] (''
       @ intercalate '', '' (staging_defs target_cols) @ '');''"

text \<open>
  The \<open>MERGE\<close> of the staged rows into the target, in one transaction: it fails when
  the target is missing, when the store refuses the statement, or when the target does
  not accept one of the staged rows.
\<close>

definition merge_into ::
  "backend \<Rightarrow> store \<Rightarrow> string \<times> string \<Rightarrow> string list \<Rightarrow> string list \<Rightarrow> row list \<Rightarrow> pyerror + store" where
  "merge_into be st k key_columns target_cols source =
     (case tables st k of
        None \<Rightarrow> Inl (StoreError ''Invalid object name'')
      | Some t \<Rightarrow>
          (case sql_merge key_columns target_cols source (t_rows t) of
             Inl e \<Rightarrow> Inl e
           | Inr rs \<Rightarrow>
               if list_all (accepts be k) source then Inr (set_rows st k rs)
               else Inl (StoreError ''The statement has been terminated'')))"

definition incremental_load ::
  "backend \<Rightarrow> store \<Rightarrow> string \<Rightarrow> string \<Rightarrow> string \<Rightarrow> metadata list \<Rightarrow> dataframe \<Rightarrow> string \<Rightarrow>
   string list \<Rightarrow> load_result \<times> store" where
  "incremental_load be st job_name schema table metadata_rows df stage key_columns =
     (let target_cols = cut_columns metadata_rows df;
          df1 = \<lparr>df_columns = target_cols, df_rows = staged_rows metadata_rows df\<rparr>
      in if df_empty df1
         then (\<lparr>r_status = ''success'', r_rows = Some 0, r_message = ''No rows to process.''\<rparr>, st)
         else if \<not> distinct target_cols
         then (error_result (StoreError ''Column names in each table must be unique''), st)
         else
           (case ddl_exec be (staging_sql schema (table @ ''_staging'') target_cols) of
              Some msg \<Rightarrow> (error_result (StoreError msg), st)
            | None \<Rightarrow>
                (let staging = tkey schema (table @ ''_staging'');
                     st1 = st\<lparr>tables := (tables st)(staging \<mapsto>
                             \<lparr>t_defs = staging_defs target_cols, t_rows = []\<rparr>)\<rparr>
                 in if \<not> list_all (accepts be staging) (df_rows df1)
                    then (error_result (StoreError ''The statement has been terminated''), st1)
                    else
                      (let st2 = set_rows st1 staging (df_rows df1)
                       in case merge_into be st2 (tkey schema table) key_columns target_cols
                                 (df_rows df1) of
                            Inl e \<Rightarrow> (error_result e, st2)
                          | Inr st3 \<Rightarrow>
                              (\<lparr>r_status = ''success'', r_rows = Some (length (df_rows df1)),
                                r_message = ''Incremental MERGE completed: ''
                                  @ str_nat (length (df_rows df1)) @ '' rows processed''\<rparr>,
                               update_incremental_tracker st3 job_name (clock be) stage)))))"

subsection \<open>create_ddl.py\<close>

text \<open>
  \<open>int(rows[0].get("SCDType", 1))\<close> and \<open>int(config.get("SCDType", 1))\<close>: the key is
  always there, so the default is never taken, and a NULL is \<open>None\<close>.
\<close>

definition int_scd_type :: "int option \<Rightarrow> pyerror + int" where
  "int_scd_type v =
     (case v of
        None \<Rightarrow>
          Inl (TypeError (''int() argument must be a string, a bytes-like object or a real number, not ''
                @ [CHR 0x27] @ ''NoneType'' @ [CHR 0x27]))
      | Some i \<Rightarrow> Inr i)"

definition VARLEN_TYPES :: "string list" where
  "VARLEN_TYPES = [''NVARCHAR'', ''VARCHAR'']"

definition ALLOWED_TYPES :: "string list" where
  "ALLOWED_TYPES = VARLEN_TYPES @
     [''INT'', ''BIGINT'', ''DECIMAL'', ''NUMERIC'', ''FLOAT'', ''BIT'', ''DATETIME'', ''DATE'']"

definition nullable_word :: "metadata \<Rightarrow> string" where
  "nullable_word r = (if int_or (IsNullable r) 1 = 1 then ''NULL'' else ''NOT NULL'')"

text \<open>
  \<open>_build_column_def\<close>. The joined rows carry no \<open>Precision\<close> or \<open>Scale\<close> key, so a
  decimal column gets \<open>(18,0)\<close>. The \<open>scd_type\<close> argument is not used by the function.
\<close>

definition build_column_def :: "metadata \<Rightarrow> string \<Rightarrow> pyerror + string" where
  "build_column_def meta_row schema =
     (let col = TargetColumnName meta_row;
          dtype = upper (TargetDataType meta_row);
          len = int_or (Length meta_row) 0
      in if lower schema = ''raw'' then Inr (''['' @ col @ ''] NVARCHAR(MAX) NULL'')
         else if dtype \<notin> set ALLOWED_TYPES then Inl (ValueError (''Unsupported data type: '' @ dtype))
         else if dtype \<in> set VARLEN_TYPES \<and> len \<le> 0
         then Inl (ValueError (dtype @ '' requires positive Length for column '' @ [CHR 0x27] @ col @ [CHR 0x27]))
         else
           (let base0 = (if dtype \<in> set VARLEN_TYPES
                         then ''['' @ col @ ''] '' @ dtype @ ''('' @ str_int len @ '')''
                         else ''['' @ col @ ''] '' @ dtype);
                base = (if dtype \<in> set [''DECIMAL'', ''NUMERIC'']
                        then ''['' @ col @ ''] '' @ dtype @ ''(18,0)'' else base0)
            in if lower schema = ''curated'' \<and> int_or (IsPK meta_row) 0 = 1
               then Inr (base @ '' PRIMARY KEY NOT NULL'')
               else if lower schema = ''processed'' then Inr (base @ '' '' @ nullable_word meta_row)
               else if int_or (IsPK meta_row) 0 = 1 then Inr (base @ '' PRIMARY KEY NOT NULL'')
               else Inr (base @ '' '' @ nullable_word meta_row)))"

text \<open>
  \<open>_validate_primary_keys\<close>: the set of the names flagged as primary key must not have
  more than one element, except for the raw layer. (The message prints a Python set,
  whose order is not fixed; the names are given in metadata order here.)
\<close>

definition validate_primary_keys :: "metadata list \<Rightarrow> string \<Rightarrow> string \<Rightarrow> string \<Rightarrow> pyerror option" where
  "validate_primary_keys columns schema table job_name =
     (if lower schema = ''raw'' then None
      else
        (let pk_cols = rev (remdups (rev (map TargetColumnName
                         (filter (\<lambda>c. int_or (IsPK c) 0 = 1) columns))))
         in if 1 < length pk_cols
            then Some (ValueError (''Job '' @ [CHR 0x27] @ job_name @ [CHR 0x27] @ '' for table '' @ schema
                   @ ''.'' @ table @ '' has multiple PK columns: {''
                   @ intercalate '', '' (map (\<lambda>n. [CHR 0x27] @ n @ [CHR 0x27]) pk_cols)
                   @ ''}. Only one PRIMARY KEY is allowed.''))
            else None))"

text \<open>
  The loop over the columns of one table in \<open>create_target_tables\<close>: a column whose
  (name, type, length) was seen is reported and skipped; a column whose definition
  raises is reported, and the loop goes on without it.
\<close>

fun columns_loop ::
  "string \<Rightarrow> string \<Rightarrow> (string \<times> string \<times> int option) list \<Rightarrow> metadata list \<Rightarrow> string list \<times> string list"
where
  "columns_loop schema table seen [] = ([], [])"
| "columns_loop schema table seen (col # cols) =
     (let k = (TargetColumnName col, TargetDataType col, Length col) in
      if k \<in> set seen
      then (case columns_loop schema table seen cols of
              (defs, errs) \<Rightarrow>
                (defs, (''Duplicate column '' @ [CHR 0x27] @ TargetColumnName col @ [CHR 0x27] @ '' in ''
                          @ schema @ ''.'' @ table) # errs))
      else (case build_column_def col schema of
              Inl e \<Rightarrow> (case columns_loop schema table (k # seen) cols of
                          (defs, errs) \<Rightarrow> (defs, str_exc e # errs))
            | Inr d \<Rightarrow> (case columns_loop schema table (k # seen) cols of
                          (defs, errs) \<Rightarrow> (d # defs, errs))))"

fun split_on :: "char \<Rightarrow> string \<Rightarrow> string list" where
  "split_on c [] = [[]]"
| "split_on c (x # xs) =
     (if x = c then [] # split_on c xs
      else (case split_on c xs of [] \<Rightarrow> [[x]] | w # ws \<Rightarrow> (x # w) # ws))"

text \<open>
  The name of the table that is created:
  \<open>f"{schema.lower()}_{job_name.split('_')[1].lower()}"\<close> for the three layers
  (\<open>IndexError\<close> for a job name without an underscore), the configured name otherwise.
\<close>

definition derive_table_name :: "string \<Rightarrow> string \<Rightarrow> string \<Rightarrow> pyerror + string" where
  "derive_table_name schema table job_name =
     (if lower schema \<in> set [''raw'', ''curated'', ''processed'']
      then (case split_on CHR ''_'' job_name of
              a # b # rest \<Rightarrow> Inr (lower schema @ ''_'' @ lower b)
            | _ \<Rightarrow> Inl (IndexError ''list index out of range''))
      else Inr table)"

definition strip_trailing_comma :: "string \<Rightarrow> string" where
  "strip_trailing_comma l = (if l \<noteq> [] \<and> last l = CHR '','' then butlast l else l)"

definition ddl_text :: "string \<Rightarrow> string \<Rightarrow> string list \<Rightarrow> string list \<Rightarrow> string" where
  "ddl_text schema table_name col_defs fk_clauses =
     (let ddl_parts = [''CREATE TABLE ['' @ schema @ ''].['' @ table_name @ ''] ('']
                        @ map (\<lambda>c. ''    '' @ c @ '','') col_defs
                        @ map (\<lambda>fk. ''    '' @ fk @ '','') fk_clauses
      in intercalate [CHR 0x0A]
           (butlast ddl_parts @ [strip_trailing_comma (last ddl_parts)] @ ['');'']))"

definition scd2_columns :: "string list \<Rightarrow> string list" where
  "scd2_columns col_defs =
     [''[RowID] INT IDENTITY(1,1) PRIMARY KEY''] @ col_defs @
     [''[StartTime] DATETIME NOT NULL DEFAULT (GETDATE())'', ''[EndTime] DATETIME NULL'',
      ''[IsCurrent] BIT NOT NULL DEFAULT (1)'']"

text \<open>
  One pass of the loop over the tables of a job. An exception (the \<open>int()\<close> of a null
  \<open>SCDType\<close>, the job name without an underscore) leaves the loop; a table that exists
  is passed over; a primary-key error is recorded and the table passed over; otherwise
  the statement is built from the column definitions that could be built and is
  executed, and a rejection by the store is recorded.
\<close>

definition create_one ::
  "backend \<Rightarrow> string \<Rightarrow> int option \<Rightarrow> store \<Rightarrow> string list \<Rightarrow> (string \<times> string) \<times> metadata list
   \<Rightarrow> pyerror + store \<times> string list" where
  "create_one be job_name scd0 st ddl_errors g =
     (case g of ((schema, table), columns) \<Rightarrow>
        (case int_scd_type scd0 of
           Inl e \<Rightarrow> Inl e
         | Inr scd_type \<Rightarrow>
             (case derive_table_name schema table job_name of
                Inl e \<Rightarrow> Inl e
              | Inr table_name \<Rightarrow>
                  if table_exists st schema table_name then Inr (st, ddl_errors)
                  else
                    (case validate_primary_keys columns schema table job_name of
                       Some ve \<Rightarrow> Inr (st, ddl_errors @ [str_exc ve])
                     | None \<Rightarrow>
                         (case columns_loop schema table [] columns of
                            (defs, errs) \<Rightarrow>
                              (let col_defs = (if lower schema = ''processed'' \<and> scd_type = 2
                                               then scd2_columns defs else defs);
                                   fk_clauses = foreign_key_clauses (table_exists st) columns;
                                   ddl_sql = ddl_text schema table_name col_defs fk_clauses
                               in case ddl_exec be ddl_sql of
                                    None \<Rightarrow>
                                      Inr (st\<lparr>tables := (tables st)(tkey schema table_name \<mapsto>
                                               \<lparr>t_defs = col_defs @ fk_clauses, t_rows = []\<rparr>)\<rparr>,
                                           ddl_errors @ errs)
                                  | Some msg \<Rightarrow> Inr (st, ddl_errors @ errs @ [msg])))))))"

fun ddl_loop ::
  "backend \<Rightarrow> string \<Rightarrow> int option \<Rightarrow> ((string \<times> string) \<times> metadata list) list \<Rightarrow> store \<Rightarrow> string list
   \<Rightarrow> pyerror option \<times> store \<times> string list" where
  "ddl_loop be job_name scd0 [] st ddl_errors = (None, st, ddl_errors)"
| "ddl_loop be job_name scd0 (g # gs) st ddl_errors =
     (case create_one be job_name scd0 st ddl_errors g of
        Inl e \<Rightarrow> (Some e, st, ddl_errors)
      | Inr (st', errs') \<Rightarrow> ddl_loop be job_name scd0 gs st' errs')"

text \<open>
  The rows of \<open>Metadata JOIN Config\<close> for the job, grouped by (TargetSchema,
  TargetTable) in the order in which the pairs first occur.
\<close>

definition joined_rows :: "store \<Rightarrow> string \<Rightarrow> (config \<times> metadata) list" where
  "joined_rows st job_name =
     concat (map (\<lambda>m. map (\<lambda>c. (c, m)) (fetch_config st job_name)) (fetch_metadata st job_name))"

definition group_tables :: "(config \<times> metadata) list \<Rightarrow> ((string \<times> string) \<times> metadata list) list" where
  "group_tables joined =
     map (\<lambda>k. (k, map snd (filter (\<lambda>cm. (TargetSchema (fst cm), TargetTable (fst cm)) = k) joined)))
       (rev (remdups (rev (map (\<lambda>cm. (TargetSchema (fst cm), TargetTable (fst cm))) joined))))"

record ddl_result =
  d_status :: string
  d_errors :: "string list"

definition create_target_tables :: "backend \<Rightarrow> store \<Rightarrow> string \<Rightarrow> ddl_result \<times> store" where
  "create_target_tables be st job_name =
     (let st1 = log_job_start be st job_name ''ddl'';
          joined = joined_rows st1 job_name
      in case joined of
           [] \<Rightarrow>
             (let msg = ''No metadata/config found for job '' @ [CHR 0x27] @ job_name @ [CHR 0x27]
              in (\<lparr>d_status = ''error'', d_errors = [msg]\<rparr>,
                  log_job_end be st1 job_name ''ddl'' (Some 0) ''failed'' (Some msg)))
         | first # others \<Rightarrow>
             (case ddl_loop be job_name (SCDType (fst first)) (group_tables joined) st1 [] of
                (Some exc, st2, errs) \<Rightarrow>
                  (\<lparr>d_status = ''error'', d_errors = [str_exc exc]\<rparr>,
                   log_job_end be st2 job_name ''ddl'' (Some 0) ''failed'' (Some (str_exc exc)))
              | (None, st2, errs) \<Rightarrow>
                  if errs \<noteq> []
                  then (\<lparr>d_status = ''error'', d_errors = errs\<rparr>,
                        log_job_end be st2 job_name ''ddl'' (Some 0) ''failed''
                          (Some (intercalate ''; '' errs)))
                  else (\<lparr>d_status = ''success'', d_errors = []\<rparr>,
                        log_job_end be st2 job_name ''ddl'' None ''success'' (Some ''DDL completed''))))"

subsection \<open>curated_processed.py\<close>

definition is_space :: "char \<Rightarrow> bool" where
  "is_space c \<longleftrightarrow> c \<in> set [CHR '' '', CHR 0x09, CHR 0x0A, CHR 0x0B, CHR 0x0C, CHR 0x0D]"

definition strip :: "string \<Rightarrow> string" where
  "strip s = rev (dropWhile is_space (rev (dropWhile is_space s)))"

text \<open>
  \<open>SELECT * FROM [schema].[table]\<close>, \<open>df.rename(columns=rename_map)\<close> (a dictionary:
  the last row of the metadata wins for a source column named twice) and
  \<open>df.reindex(columns=target_cols)\<close>. The column labels of the frame are read off the
  stored rows. \<open>reindex\<close> leaves a frame alone whose labels already are \<open>target_cols\<close>,
  also when a label occurs twice (whether an append then accepts such rows is up to
  \<open>accepts\<close>); otherwise it raises on a label that occurs twice, and else selects the
  target columns, with nulls for the missing ones.
\<close>

definition rename_row :: "metadata list \<Rightarrow> row \<Rightarrow> row" where
  "rename_row md r =
     map (\<lambda>(c, v). (case map_of (rev (map (\<lambda>m. (SourceColumnName m, TargetColumnName m)) md)) c of
                      None \<Rightarrow> c | Some t \<Rightarrow> t, v)) r"

definition read_renamed :: "store \<Rightarrow> string \<Rightarrow> string \<Rightarrow> metadata list \<Rightarrow> pyerror + dataframe" where
  "read_renamed st schema table md =
     (case tables st (tkey schema table) of
        None \<Rightarrow> Inl (StoreError ''Invalid object name'')
      | Some t \<Rightarrow>
          if list_all (\<lambda>r. map fst (rename_row md r) = map TargetColumnName md) (t_rows t)
          then Inr \<lparr>df_columns = map TargetColumnName md, df_rows = map (rename_row md) (t_rows t)\<rparr>
          else if list_ex (\<lambda>r. \<not> distinct (map fst (rename_row md r))) (t_rows t)
          then Inl (ValueError ''cannot reindex on an axis with duplicate labels'')
          else Inr \<lparr>df_columns = map TargetColumnName md,
                    df_rows = map (\<lambda>r. project (map TargetColumnName md) (rename_row md r)) (t_rows t)\<rparr>)"

text \<open>
  \<open>load_curated_to_processed\<close>. The two early returns (no configuration, no metadata)
  leave the audit row open; everything after them runs inside the \<open>try\<close>, whose handler
  closes the audit row as failed. The result of \<open>create_target_tables\<close> is not looked
  at. The tracker is written after every kind of incremental load that did not raise.
\<close>

definition processed_load ::
  "backend \<Rightarrow> store \<Rightarrow> string \<Rightarrow> config \<Rightarrow> metadata list \<Rightarrow> int \<Rightarrow> dataframe
   \<Rightarrow> pyerror + (load_result \<times> store) option" where
  "processed_load be st job_name cfg md scd_type df =
     (let target_schema = strip (TargetSchema cfg);
          target_table = strip (TargetTable cfg);
          target_cols = map TargetColumnName md;
          key_cols = pk_cols_of md;
          k = tkey target_schema target_table
      in if lower (LoadType cfg) = ''full''
         then Inr (Some (full_load be st df target_schema target_table))
         else if lower (LoadType cfg) = ''incremental''
         then
           (case
              (if scd_type = 1 then
                 (case tables st k of
                    None \<Rightarrow> Inl (StoreError ''Invalid object name'')
                  | Some t \<Rightarrow>
                      (case scd1_merge (injected be) (t_rows t) df key_cols target_cols of
                         Inl e \<Rightarrow> Inl e
                       | Inr rs \<Rightarrow>
                           Inr (\<lparr>r_status = ''success'', r_rows = Some (length (df_rows df)),
                                 r_message = ''Incremental SCD1 merge completed''\<rparr>, set_rows st k rs)))
               else if scd_type = 2 then
                 (case tables st k of
                    None \<Rightarrow> Inl (StoreError ''Invalid object name'')
                  | Some t \<Rightarrow>
                      (case scd2_merge (injected be) (getdate_close be) (getdate_open be) (t_rows t) df key_cols
                              target_cols of
                         Inl e \<Rightarrow> Inl e
                       | Inr rs \<Rightarrow>
                           Inr (\<lparr>r_status = ''success'', r_rows = Some (length (df_rows df)),
                                 r_message = ''Incremental SCD2 merge completed''\<rparr>, set_rows st k rs)))
               else Inr (incremental_load be st job_name target_schema target_table md df
                           ''curated_processed'' key_cols))
            of
              Inl e \<Rightarrow> Inl e
            | Inr (res, st') \<Rightarrow>
                Inr (Some (res, update_incremental_tracker st' job_name (clock be) ''curated_processed'')))
         else Inr None)"

definition load_curated_to_processed :: "backend \<Rightarrow> store \<Rightarrow> string \<Rightarrow> load_result \<times> store" where
  "load_curated_to_processed be st job_name =
     (let stage = ''curated_to_processed'';
          st1 = log_job_start be st job_name stage;
          failed = (\<lambda>e s. (\<lparr>r_status = ''error'', r_rows = Some 0, r_message = str_exc e\<rparr>,
                           log_job_end be s job_name stage (Some 0) ''failed'' (Some (str_exc e))))
      in case fetch_config st1 job_name of
           [] \<Rightarrow> (\<lparr>r_status = ''error'', r_rows = None, r_message = ''No Config for '' @ job_name\<rparr>, st1)
         | cfg # others \<Rightarrow>
             (case fetch_metadata st1 job_name of
                [] \<Rightarrow> (\<lparr>r_status = ''error'', r_rows = None, r_message = ''No Metadata for '' @ job_name\<rparr>, st1)
              | m # ms \<Rightarrow>
                  (let md = m # ms in
                   case int_scd_type (SCDType cfg) of
                     Inl e \<Rightarrow> failed e st1
                   | Inr scd_type \<Rightarrow>
                       (let st2 = (if table_exists st1 (strip (TargetSchema cfg)) (strip (TargetTable cfg))
                                   then st1 else snd (create_target_tables be st1 job_name))
                        in case read_renamed st2 (SourceSchema cfg) (SourceTable cfg) md of
                             Inl e \<Rightarrow> failed e st2
                           | Inr df \<Rightarrow>
                               if df_empty df
                               then (\<lparr>r_status = ''success'', r_rows = Some 0,
                                       r_message = ''No rows to load into processed table.''\<rparr>,
                                     log_job_end be st2 job_name stage (Some 0) ''success''
                                       (Some ''No rows to load into processed table.''))
                               else
                                 (case processed_load be st2 job_name cfg md scd_type df of
                                    Inl e \<Rightarrow> failed e st2
                                  | Inr None \<Rightarrow>
                                      (\<lparr>r_status = ''error'', r_rows = None,
                                        r_message = ''Unsupported LoadType: '' @ lower (LoadType cfg)\<rparr>, st2)
                                  | Inr (Some (res, st3)) \<Rightarrow>
                                      (res, log_job_end be st3 job_name stage
                                              (Some (case r_rows res of None \<Rightarrow> 0 | Some n \<Rightarrow> int n))
                                              (r_status res) (Some (r_message res))))))))"

section \<open>Stating where a row stands in its batch\<close>

text \<open>The last row of \<open>rs\<close>, in source order, whose key over \<open>cols\<close> is \<open>k\<close>.\<close>

definition last_with_key :: "string list \<Rightarrow> row list \<Rightarrow> cell list \<Rightarrow> row option" where
  "last_with_key cols rs k = find (\<lambda>r. key_of cols r = k) (rev rs)"

text \<open>The number of rows of \<open>rs\<close> whose key over \<open>cols\<close> is \<open>k\<close>.\<close>

definition count_key :: "string list \<Rightarrow> row list \<Rightarrow> cell list \<Rightarrow> nat" where
  "count_key cols rs k = length (filter (\<lambda>r. key_of cols r = k) rs)"

section \<open>Example inputs\<close>


text \<open>An employee batch: \<open>EmpId\<close> is the primary key, \<open>Name\<close> is declared NOT NULL.\<close>

definition emp_id :: metadata where
  "emp_id = \<lparr>SourceColumnName = ''emp_id'', TargetColumnName = ''EmpId'', TargetDataType = ''INT'',
      Length = Some 0, IsPK = Some 1, IsFK = Some 0, IsNullable = Some 0, ReferenceTable = None\<rparr>"

definition emp_name :: metadata where
  "emp_name = \<lparr>SourceColumnName = ''name'', TargetColumnName = ''Name'', TargetDataType = ''NVARCHAR'',
      Length = Some 50, IsPK = Some 0, IsFK = Some 0, IsNullable = Some 0, ReferenceTable = None\<rparr>"

definition emp_batch :: dataframe where
  "emp_batch = \<lparr>df_columns = [''EmpId'', ''Name''],
      df_rows = [[(''EmpId'', Num 1), (''Name'', Str ''a'')], [(''EmpId'', Num 1), (''Name'', Null)]]\<rparr>"

text \<open>An order batch: \<open>Id\<close> is the primary key, \<open>Qty\<close> a nullable number.\<close>

definition ord_id :: metadata where
  "ord_id = \<lparr>SourceColumnName = ''id'', TargetColumnName = ''Id'', TargetDataType = ''INT'',
      Length = Some 0, IsPK = Some 1, IsFK = Some 0, IsNullable = Some 1, ReferenceTable = None\<rparr>"

definition ord_qty :: metadata where
  "ord_qty = \<lparr>SourceColumnName = ''qty'', TargetColumnName = ''Qty'', TargetDataType = ''INT'',
      Length = Some 0, IsPK = Some 0, IsFK = Some 0, IsNullable = Some 1, ReferenceTable = None\<rparr>"

definition ord_batch :: dataframe where
  "ord_batch = \<lparr>df_columns = [''Id'', ''Qty''],
      df_rows = [[(''Id'', Num 1), (''Qty'', Num 5)], [(''Id'', Num 1), (''Qty'', Num (- 3))]]\<rparr>"

definition no_lookup :: fk_lookup where
  "no_lookup ref_schema ref_table col = Inl (StoreError ''Invalid object name'')"

text \<open>A batch with two rows for the key 1.\<close>

definition dup_batch :: dataframe where
  "dup_batch = \<lparr>df_columns = [''Id'', ''Name''],
      df_rows = [[(''Id'', Num 1), (''Name'', Str ''a'')], [(''Id'', Num 1), (''Name'', Str ''b'')]]\<rparr>"



text \<open>
  A store for the job \<open>JOB_EMP_PROCESSED\<close>: a full load from \<open>curated.emp\<close> into
  \<open>processed.emp\<close>, which holds one older row. The variants differ in the load type and
  the SCD type of the configuration row.
\<close>

definition emp_cfg :: "string \<Rightarrow> int option \<Rightarrow> config" where
  "emp_cfg load_type scd =
     \<lparr>JobName = ''JOB_EMP_PROCESSED'', SourceType = ''table'', SourcePath = ''None'',
      SourceSchema = ''curated'', SourceTable = ''emp'', TargetSchema = ''processed'',
      TargetTable = ''emp'', LoadType = load_type, SCDType = scd\<rparr>"

definition old_row :: row where
  "old_row = [(''EmpId'', Num 9), (''Name'', Str ''old'')]"

definition emp_store :: "string \<Rightarrow> int option \<Rightarrow> store" where
  "emp_store load_type scd =
     \<lparr>Config = [emp_cfg load_type scd],
      Metadata = [(''JOB_EMP_PROCESSED'', emp_id), (''JOB_EMP_PROCESSED'', emp_name)],
      tables = [(''curated'', ''emp'') \<mapsto> \<lparr>t_defs = [], t_rows = [[(''emp_id'', Num 1), (''name'', Str ''a'')]]\<rparr>,
                (''processed'', ''emp'') \<mapsto> \<lparr>t_defs = [], t_rows = [old_row]\<rparr>],
      IncrementalTracker = Map.empty,
      JobAudit = []\<rparr>"

definition new_batch :: dataframe where
  "new_batch = \<lparr>df_columns = [''EmpId'', ''Name''], df_rows = [[(''EmpId'', Num 1), (''Name'', Str ''a'')]]\<rparr>"

text \<open>A backend that accepts every statement and row, and one that rejects every row.\<close>

definition be_accept :: backend where
  "be_accept = \<lparr>clock = ((2024, 1, 1), 0), getdate_close = Str ''2024-01-01'',
      getdate_open = Str ''2024-01-01'', ddl_exec = (\<lambda>sql. None), accepts = (\<lambda>k r. True),
      injected = (\<lambda>t vals. Inl (StoreError ''Incorrect syntax''))\<rparr>"

definition be_reject :: backend where
  "be_reject = \<lparr>clock = ((2024, 1, 1), 0), getdate_close = Str ''2024-01-01'',
      getdate_open = Str ''2024-01-01'', ddl_exec = (\<lambda>sql. None), accepts = (\<lambda>k r. False),
      injected = (\<lambda>t vals. Inl (StoreError ''Incorrect syntax''))\<rparr>"

text \<open>
  A curated job whose second column has a type outside the table of types, on a store
  with no data table yet, and a backend that accepts exactly the statement for a table
  with the first column only.
\<close>

definition emp_bad :: metadata where
  "emp_bad = \<lparr>SourceColumnName = ''name'', TargetColumnName = ''Name'', TargetDataType = ''XYZ'',
      Length = Some 50, IsPK = Some 0, IsFK = Some 0, IsNullable = Some 1, ReferenceTable = None\<rparr>"

definition bad_type_store :: store where
  "bad_type_store =
     \<lparr>Config = [\<lparr>JobName = ''JOB_EMP_CURATED'', SourceType = ''table'', SourcePath = ''None'',
                 SourceSchema = ''raw'', SourceTable = ''raw_emp'', TargetSchema = ''curated'',
                 TargetTable = ''curated_emp'', LoadType = ''full'', SCDType = Some 1\<rparr>],
      Metadata = [(''JOB_EMP_CURATED'', emp_id), (''JOB_EMP_CURATED'', emp_bad)],
      tables = Map.empty,
      IncrementalTracker = Map.empty,
      JobAudit = []\<rparr>"

definition be_one_column :: backend where
  "be_one_column = \<lparr>clock = ((2024, 1, 1), 0), getdate_close = Str ''2024-01-01'',
      getdate_open = Str ''2024-01-01'',
      ddl_exec = (\<lambda>sql. if sql = ''CREATE TABLE [curated].[curated_emp] ('' @ [CHR 0x0A]
                                    @ ''    [EmpId] INT PRIMARY KEY NOT NULL'' @ [CHR 0x0A] @ '');''
                         then None else Some ''Incorrect syntax''),
      accepts = (\<lambda>k r. True),
      injected = (\<lambda>t vals. Inl (StoreError ''Incorrect syntax''))\<rparr>"

text \<open>
  A digit table with two scripts (the digits 0 to 9 at code points 48 to 57 and the
  Arabic-Indic digits at 1632 to 1641), and a file whose name carries the date
  2024-01-05 in Arabic-Indic digits.
\<close>

definition two_scripts :: decimal_table where
  "two_scripts c =
     (if 48 \<le> c \<and> c \<le> 57 then Some (c - 48)
      else if 1632 \<le> c \<and> c \<le> 1641 then Some (c - 1632) else None)"

definition arabic_indic_name :: ustring where
  "arabic_indic_name = ustr ''d/'' @ [1634, 1632, 1634, 1636, 95, 1632, 1633, 95, 1632, 1637] @ ustr ''.csv''"






definition quoted_batch :: dataframe where
  "quoted_batch = \<lparr>df_columns = [''Id'', ''Name''],
     df_rows = [[(''Id'', Str ''1''), (''Name'', Str (''a'' @ [CHR 0x27] @ ''),('' @ [CHR 0x27] @ ''1''
                    @ [CHR 0x27] @ '','' @ [CHR 0x27] @ ''b''))]]\<rparr>"

definition two_rows_read :: injection where
  "two_rows_read target vals =
     Inr (target @ map (new_version [''Id'', ''Name''] (Str ''t1''))
            [[(''Id'', Str ''1''), (''Name'', Str ''a'')], [(''Id'', Str ''1''), (''Name'', Str ''b'')]])"

text \<open>A store that takes rows into the staging table only.\<close>

definition be_reject_target :: backend where
  "be_reject_target =
     \<lparr>clock = ((2024, 1, 2), 0), getdate_close = Str ''2024-01-02'',
      getdate_open = Str ''2024-01-02'', ddl_exec = (\<lambda>sql. None),
      accepts = (\<lambda>k r. k = (''processed'', ''emp_staging'')),
      injected = (\<lambda>t vals. Inl (StoreError ''Incorrect syntax''))\<rparr>"

section \<open>Properties\<close>

subsection \<open>Foreign-key references resolve to different schemas\<close>












subsection \<open>Incremental Source-to-Raw: files without a date\<close>

lemma new_files_loop_append:
  "new_files_loop dec bn w (xs @ ys) =
     (case new_files_loop dec bn w xs of Inl e \<Rightarrow> Inl e
      | Inr a \<Rightarrow> (case new_files_loop dec bn w ys of Inl e \<Rightarrow> Inl e | Inr b \<Rightarrow> Inr (a @ b)))"
  by (induction xs) (auto split: option.splits sum.splits prod.splits)

lemma new_files_loop_dated:
  "new_files_loop dec bn w fs = Inr nf \<Longrightarrow> (f, fd) \<in> set nf \<Longrightarrow>
     f \<in> set fs \<and> w < fd \<and>
     (\<exists>y m d. date_search dec (bn f) = Some (y, m, d) \<and> mk_datetime y m d = Inr fd)"
proof (induction fs arbitrary: nf)
  case Nil
  then show ?case by simp
next
  case (Cons a fs)
  then show ?case
    by (auto split: option.splits sum.splits prod.splits if_splits)
qed

lemma new_files_loop_skip:
  assumes "date_search dec (bn f) = None"
  shows "new_files_loop dec bn w (xs @ f # ys) = new_files_loop dec bn w (xs @ ys)"
proof -
  have "new_files_loop dec bn w (f # ys) = new_files_loop dec bn w ys"
    using assms by simp
  then show ?thesis
    by (simp only: new_files_loop_append [of dec bn w xs "f # ys"] new_files_loop_append [of dec bn w xs ys])
qed

text \<open>
  C9: whatever the platform's digit table and basename function, a file whose basename
  has no match of \<open>DATE_PATTERN\<close> changes nothing in the incremental selection,
  whatever the watermark: the selection with the file is the selection without it (no
  error comes from it), it is never among the files read, and every file that is read
  carries a date strictly later than the watermark.
\<close>

theorem undated_file_never_loaded:
  assumes "date_search decimal (os_basename f) = None"
  shows "incremental_file_paths decimal os_basename tracked (xs @ f # ys)
           = incremental_file_paths decimal os_basename tracked (xs @ ys)
       \<and> (\<forall>paths. incremental_file_paths decimal os_basename tracked files = Inr paths \<longrightarrow>
            f \<notin> set paths
          \<and> (\<forall>p \<in> set paths. \<exists>y m d fd.
                date_search decimal (os_basename p) = Some (y, m, d) \<and> mk_datetime y m d = Inr fd
              \<and> (case tracked of None \<Rightarrow> ((1900, 1, 1), 0) | Some t \<Rightarrow> t) < fd))"
proof -
  have skip: "incremental_file_paths decimal os_basename tracked (xs @ f # ys)
      = incremental_file_paths decimal os_basename tracked (xs @ ys)"
    using assms by (simp add: incremental_file_paths_def Let_def new_files_loop_skip)
  have sel: "\<exists>y m d fd. date_search decimal (os_basename q) = Some (y, m, d) \<and> mk_datetime y m d = Inr fd
             \<and> (case tracked of None \<Rightarrow> ((1900, 1, 1), 0) | Some t \<Rightarrow> t) < fd"
    if "incremental_file_paths decimal os_basename tracked files = Inr paths" "q \<in> set paths" for q paths
  proof -
    from that obtain nf where nf: "new_files_loop decimal os_basename
          (case tracked of None \<Rightarrow> ((1900, 1, 1), 0) | Some t \<Rightarrow> t) files = Inr nf"
      and ps: "paths = map fst (sort_key snd nf)"
      by (auto simp: incremental_file_paths_def Let_def split: sum.splits)
    from that(2) ps obtain fd where "(q, fd) \<in> set nf" by auto
    from new_files_loop_dated [OF nf this] show ?thesis by blast
  qed
  have excl: "f \<notin> set paths"
    if a: "incremental_file_paths decimal os_basename tracked files = Inr paths" for paths
  proof
    assume "f \<in> set paths"
    from sel [OF a this] assms show False by auto
  qed
  from skip sel excl show ?thesis by blast
qed

lemma undated_example: "date_search two_scripts (posix_basename (ustr ''d/a.csv'')) = None"
  by code_simp

lemma dated_examples:
  "incremental_file_paths two_scripts posix_basename (Some ((2024, 1, 1), 0))
     [ustr ''d/a.csv'', ustr ''d/b_2024_02_01.csv'', arabic_indic_name, ustr ''d/c_2023_12_31.csv'']
   = Inr [arabic_indic_name, ustr ''d/b_2024_02_01.csv'']"
  by code_simp

theorem undated_file_never_loaded_witness:
  "date_search two_scripts (posix_basename (ustr ''d/a.csv'')) = None
   \<and> incremental_file_paths two_scripts posix_basename (Some ((2024, 1, 1), 0))
        ([] @ ustr ''d/a.csv'' # [ustr ''d/b_2024_02_01.csv'', arabic_indic_name, ustr ''d/c_2023_12_31.csv''])
       = incremental_file_paths two_scripts posix_basename (Some ((2024, 1, 1), 0))
           ([] @ [ustr ''d/b_2024_02_01.csv'', arabic_indic_name, ustr ''d/c_2023_12_31.csv''])
   \<and> incremental_file_paths two_scripts posix_basename (Some ((2024, 1, 1), 0))
        [ustr ''d/a.csv'', ustr ''d/b_2024_02_01.csv'', arabic_indic_name, ustr ''d/c_2023_12_31.csv'']
       = Inr [arabic_indic_name, ustr ''d/b_2024_02_01.csv'']
   \<and> ustr ''d/a.csv'' \<notin> set [arabic_indic_name, ustr ''d/b_2024_02_01.csv'']"
proof -
  have n: "ustr ''d/a.csv'' \<notin> set [arabic_indic_name, ustr ''d/b_2024_02_01.csv'']"
    by code_simp
  from undated_file_never_loaded [where decimal = two_scripts and os_basename = posix_basename
      and f = "ustr ''d/a.csv''" and tracked = "Some ((2024, 1, 1), 0)"
      and xs = "[]" and ys = "[ustr ''d/b_2024_02_01.csv'', arabic_indic_name, ustr ''d/c_2023_12_31.csv'']",
      OF undated_example]
  have skip: "incremental_file_paths two_scripts posix_basename (Some ((2024, 1, 1), 0))
        ([] @ ustr ''d/a.csv'' # [ustr ''d/b_2024_02_01.csv'', arabic_indic_name, ustr ''d/c_2023_12_31.csv''])
       = incremental_file_paths two_scripts posix_basename (Some ((2024, 1, 1), 0))
           ([] @ [ustr ''d/b_2024_02_01.csv'', arabic_indic_name, ustr ''d/c_2023_12_31.csv''])"
    by (rule conjunct1)
  from undated_example skip dated_examples n show ?thesis by (intro conjI)
qed

subsection \<open>Primary-key rule of the constraint enforcer\<close>

lemma ddl_subset: "set (drop_duplicates_last ks rs) \<subseteq> set rs"
  by (induction rs) auto

lemma ddl_keys: "key_of ks ` set (drop_duplicates_last ks rs) = key_of ks ` set rs"
  by (induction rs) auto

lemma ddl_distinct: "distinct (map (key_of ks) (drop_duplicates_last ks rs))"
proof (induction rs)
  case Nil
  show ?case by simp
next
  case (Cons r rs)
  have "key_of ks r \<notin> key_of ks ` set (drop_duplicates_last ks rs)" if "key_of ks r \<notin> key_of ks ` set rs"
    using that ddl_keys [of ks rs] by simp
  with Cons show ?case by auto
qed

lemma find_append: "find P (xs @ ys) = (case find P xs of None \<Rightarrow> find P ys | Some x \<Rightarrow> Some x)"
  by (induction xs) auto

lemma ddl_last: "r \<in> set (drop_duplicates_last ks rs) \<Longrightarrow> last_with_key ks rs (key_of ks r) = Some r"
proof (induction rs)
  case Nil
  then show ?case by simp
next
  case (Cons a rs)
  show ?case
  proof (cases "key_of ks a \<in> set (map (key_of ks) rs)")
    case True
    with Cons.prems have "r \<in> set (drop_duplicates_last ks rs)" by simp
    from Cons.IH [OF this] show ?thesis
      by (simp add: last_with_key_def find_append)
  next
    case False
    with Cons.prems have "r = a \<or> r \<in> set (drop_duplicates_last ks rs)" by auto
    then show ?thesis
    proof
      assume ra: "r = a"
      have "find (\<lambda>x. key_of ks x = key_of ks a) (rev rs) = None"
        unfolding find_None_iff
      proof
        assume "\<exists>x. x \<in> set (rev rs) \<and> key_of ks x = key_of ks a"
        then obtain x where x: "x \<in> set rs" and e: "key_of ks x = key_of ks a" by auto
        from x have "key_of ks x \<in> key_of ks ` set rs" by (rule imageI)
        with e have "key_of ks a \<in> set (map (key_of ks) rs)" by simp
        with False show False by simp
      qed
      with ra show ?thesis by (simp add: last_with_key_def find_append)
    next
      assume "r \<in> set (drop_duplicates_last ks rs)"
      from Cons.IH [OF this] show ?thesis
        by (simp add: last_with_key_def find_append)
    qed
  qed
qed

lemma find_filter_same:
  "(\<And>x. P x \<Longrightarrow> Q x) \<Longrightarrow> find P (filter Q xs) = find P xs"
  by (induction xs) auto

lemma has_null_key: "key_of ks a = key_of ks b \<Longrightarrow> has_null ks a = has_null ks b"
proof -
  assume "key_of ks a = key_of ks b"
  then have "\<forall>c \<in> set ks. cell_of a c = cell_of b c" by (simp add: key_of_def)
  then show ?thesis by (auto simp: has_null_def list_ex_iff)
qed

lemma last_with_key_dropna:
  "\<not> has_null ks r \<Longrightarrow> last_with_key ks (dropna ks rs) (key_of ks r) = last_with_key ks rs (key_of ks r)"
proof -
  assume nn: "\<not> has_null ks r"
  have "find (\<lambda>x. key_of ks x = key_of ks r) (filter (\<lambda>x. \<not> has_null ks x) (rev rs))
        = find (\<lambda>x. key_of ks x = key_of ks r) (rev rs)"
    by (rule find_filter_same) (use nn has_null_key in blast)
  then show ?thesis by (simp add: last_with_key_def dropna_def rev_filter)
qed

lemma not_null_loop_filter:
  "\<exists>P. not_null_loop cs df = df\<lparr>df_rows := filter P (df_rows df)\<rparr>"
proof (induction cs arbitrary: df)
  case Nil
  have "not_null_loop [] df = df\<lparr>df_rows := filter (\<lambda>x. True) (df_rows df)\<rparr>" by simp
  then show ?case by blast
next
  case (Cons c cs)
  show ?case
  proof (cases "c \<in> set (df_columns df)")
    case True
    from Cons.IH [of "df\<lparr>df_rows := dropna [c] (df_rows df)\<rparr>"]
    obtain P where "not_null_loop cs (df\<lparr>df_rows := dropna [c] (df_rows df)\<rparr>)
       = df\<lparr>df_rows := filter P (dropna [c] (df_rows df))\<rparr>" by auto
    with True have "not_null_loop (c # cs) df
       = df\<lparr>df_rows := filter (\<lambda>x. \<not> has_null [c] x \<and> P x) (df_rows df)\<rparr>"
      by (simp add: dropna_def conj_commute)
    then show ?thesis by blast
  next
    case False
    with Cons.IH [of df] show ?thesis by simp
  qed
qed

lemma fk_filter_filter: "\<exists>P. fk_filter lookup rule df = df\<lparr>df_rows := filter P (df_rows df)\<rparr>"
proof -
  have id: "df = df\<lparr>df_rows := filter (\<lambda>x. True) (df_rows df)\<rparr>" by simp
  obtain col rs rt where q: "fk_rule_query rule = (col, rs, rt)" by (cases "fk_rule_query rule")
  show ?thesis
  proof (cases "lookup rs rt col")
    case (Inl e)
    with q have "fk_filter lookup rule df = df" by (simp add: fk_filter_def)
    with id show ?thesis by metis
  next
    case (Inr vals)
    show ?thesis
    proof (cases "col \<in> set (df_columns df)")
      case True
      with q Inr show ?thesis by (auto simp: fk_filter_def)
    next
      case False
      with q Inr have "fk_filter lookup rule df = df" by (simp add: fk_filter_def)
      with id show ?thesis by metis
    qed
  qed
qed

lemma fk_loop_filter: "\<exists>P. fk_loop lookup rules df = df\<lparr>df_rows := filter P (df_rows df)\<rparr>"
proof (induction rules arbitrary: df)
  case Nil
  have "fk_loop lookup [] df = df\<lparr>df_rows := filter (\<lambda>x. True) (df_rows df)\<rparr>" by simp
  then show ?case by blast
next
  case (Cons rule rules)
  obtain Q where Q: "fk_filter lookup rule df = df\<lparr>df_rows := filter Q (df_rows df)\<rparr>"
    using fk_filter_filter by blast
  from Cons.IH [of "df\<lparr>df_rows := filter Q (df_rows df)\<rparr>"]
  obtain P where "fk_loop lookup rules (df\<lparr>df_rows := filter Q (df_rows df)\<rparr>)
     = df\<lparr>df_rows := filter P (filter Q (df_rows df))\<rparr>" by auto
  with Q have "fk_loop lookup (rule # rules) df = df\<lparr>df_rows := filter (\<lambda>x. Q x \<and> P x) (df_rows df)\<rparr>"
    by simp
  then show ?case by blast
qed

lemma enforce_pk_fk_filter:
  assumes "enforce_pk_fk lookup df md = Inr out"
  shows "\<exists>df1 P. pk_enforcement df md = Inr df1 \<and> out = df1\<lparr>df_rows := filter P (df_rows df1)\<rparr>"
proof -
  from assms obtain df1 where d1: "pk_enforcement df md = Inr df1"
    and o: "out = fk_enforcement lookup (not_null_enforcement df1 md) md"
    by (auto simp: enforce_pk_fk_def split: sum.splits)
  obtain Q where Q: "not_null_enforcement df1 md = df1\<lparr>df_rows := filter Q (df_rows df1)\<rparr>"
    using not_null_loop_filter unfolding not_null_enforcement_def by blast
  obtain P where P: "fk_enforcement lookup (df1\<lparr>df_rows := filter Q (df_rows df1)\<rparr>) md
      = df1\<lparr>df_rows := filter P (filter Q (df_rows df1))\<rparr>"
    using fk_loop_filter [of lookup "fk_rules md" "df1\<lparr>df_rows := filter Q (df_rows df1)\<rparr>"]
    unfolding fk_enforcement_def by auto
  from o Q P have "out = df1\<lparr>df_rows := filter (\<lambda>x. Q x \<and> P x) (df_rows df1)\<rparr>" by simp
  with d1 show ?thesis by blast
qed

lemma pk_enforcement_rows:
  assumes "pk_enforcement df md = Inr df1" and "pk_cols_of md \<noteq> []"
  shows "df_rows df1 = drop_duplicates_last (pk_cols_of md) (dropna (pk_cols_of md) (df_rows df))"
  using assms by (auto simp: pk_enforcement_def Let_def split: if_splits)


lemma enforce_pk_fk_rows:
  assumes "enforce_pk_fk lookup df md = Inr out" and "pk_cols_of md \<noteq> []"
  shows "\<exists>P. df_rows out =
           filter P (drop_duplicates_last (pk_cols_of md) (dropna (pk_cols_of md) (df_rows df)))"
proof -
  from enforce_pk_fk_filter [OF assms(1)]
  obtain df1 P where d1: "pk_enforcement df md = Inr df1"
    and o: "out = df1\<lparr>df_rows := filter P (df_rows df1)\<rparr>" by blast
  from o have "df_rows out = filter P (df_rows df1)" by simp
  with pk_enforcement_rows [OF d1 assms(2)] show ?thesis by auto
qed

lemma kept_row_facts:
  assumes "r \<in> set (drop_duplicates_last ks (dropna ks rs))"
  shows "\<not> has_null ks r \<and> r \<in> set rs \<and> last_with_key ks rs (key_of ks r) = Some r"
proof -
  from assms ddl_subset have m: "r \<in> set (dropna ks rs)" by blast
  then have nn: "\<not> has_null ks r" and rs: "r \<in> set rs" by (auto simp: dropna_def)
  from ddl_last [OF assms] last_with_key_dropna [OF nn, of rs]
  have "last_with_key ks rs (key_of ks r) = Some r" by simp
  with nn rs show ?thesis by simp
qed

lemma count_key_one:
  assumes "distinct (map (key_of ks) rs)" and "r \<in> set rs"
  shows "count_key ks rs (key_of ks r) = 1"
  using assms
proof (induction rs)
  case Nil
  then show ?case by simp
next
  case (Cons a rs)
  show ?case
  proof (cases "r \<in> set rs")
    case True
    with Cons have "count_key ks rs (key_of ks r) = 1" by simp
    moreover from Cons.prems(1) have "key_of ks a \<notin> key_of ks ` set rs" by simp
    with True have "key_of ks a \<noteq> key_of ks r" by (metis imageI)
    ultimately show ?thesis by (simp add: count_key_def)
  next
    case False
    with Cons.prems have ra: "r = a" by simp
    from Cons.prems(1) have "key_of ks a \<notin> key_of ks ` set rs" by simp
    then have "\<forall>x \<in> set rs. key_of ks x \<noteq> key_of ks a" by (metis imageI)
    then have "filter (\<lambda>x. key_of ks x = key_of ks a) rs = []" by (simp add: filter_empty_conv)
    with ra show ?thesis by (simp add: count_key_def)
  qed
qed

lemma count_key_filter_le: "count_key ks (filter P rs) k \<le> count_key ks rs k"
proof -
  have "filter (\<lambda>r. key_of ks r = k) (filter P rs) = filter P (filter (\<lambda>r. key_of ks r = k) rs)"
    by (simp add: conj_commute)
  then show ?thesis unfolding count_key_def by (metis length_filter_le)
qed

text \<open>
  C7 (amended): when \<open>enforce_pk_fk\<close> returns, no row of its output has a null
  primary-key value, every row of the output is the last row of the input batch with its
  key, and each key occurs at most once in the output (exactly once for the keys that
  are present). Right after the primary-key block, every non-null key of the input
  occurs exactly once; the not-null and foreign-key blocks that follow may still drop
  that row, so the final output holds at most one row per key.
\<close>

theorem pk_rule_keeps_last_occurrence:
  assumes "enforce_pk_fk lookup df md = Inr out" and "pk_cols_of md \<noteq> []"
  shows "(\<forall>r \<in> set (df_rows out).
            \<not> has_null (pk_cols_of md) r
          \<and> last_with_key (pk_cols_of md) (df_rows df) (key_of (pk_cols_of md) r) = Some r
          \<and> count_key (pk_cols_of md) (df_rows out) (key_of (pk_cols_of md) r) = 1)
       \<and> (\<forall>k. count_key (pk_cols_of md) (df_rows out) k \<le> 1)
       \<and> (\<exists>df1. pk_enforcement df md = Inr df1
            \<and> (\<forall>r \<in> set (df_rows df). \<not> has_null (pk_cols_of md) r \<longrightarrow>
                  count_key (pk_cols_of md) (df_rows df1) (key_of (pk_cols_of md) r) = 1))"
proof -
  define ks where "ks = pk_cols_of md"
  define kept where "kept = drop_duplicates_last ks (dropna ks (df_rows df))"
  from enforce_pk_fk_rows [OF assms] obtain P where out: "df_rows out = filter P kept"
    unfolding ks_def kept_def by blast
  have dk: "distinct (map (key_of ks) kept)" unfolding kept_def by (rule ddl_distinct)
  then have dout: "distinct (map (key_of ks) (df_rows out))"
    unfolding out by (rule distinct_map_filter)
  have a: "\<not> has_null ks r \<and> last_with_key ks (df_rows df) (key_of ks r) = Some r
         \<and> count_key ks (df_rows out) (key_of ks r) = 1" if "r \<in> set (df_rows out)" for r
  proof -
    from that out have "r \<in> set kept" by simp
    from kept_row_facts [OF this [unfolded kept_def]] count_key_one [OF dout that]
    show ?thesis by simp
  qed
  have b: "count_key ks (df_rows out) k \<le> 1" for k
  proof (cases "\<exists>r \<in> set (df_rows out). key_of ks r = k")
    case True
    then obtain r where "r \<in> set (df_rows out)" "key_of ks r = k" by blast
    with count_key_one [OF dout this(1)] show ?thesis by simp
  next
    case False
    then have "filter (\<lambda>r. key_of ks r = k) (df_rows out) = []" by (auto simp: filter_empty_conv)
    then show ?thesis by (simp add: count_key_def)
  qed
  from assms(1) obtain df1 where d1: "pk_enforcement df md = Inr df1"
    by (auto simp: enforce_pk_fk_def split: sum.splits)
  from pk_enforcement_rows [OF d1 assms(2)] have r1: "df_rows df1 = kept"
    unfolding kept_def ks_def .
  have c: "count_key ks (df_rows df1) (key_of ks r) = 1"
    if "r \<in> set (df_rows df)" "\<not> has_null ks r" for r
  proof -
    from that have "r \<in> set (dropna ks (df_rows df))" by (simp add: dropna_def)
    then have "key_of ks r \<in> key_of ks ` set (dropna ks (df_rows df))" by (rule imageI)
    with ddl_keys [of ks "dropna ks (df_rows df)"] have "key_of ks r \<in> key_of ks ` set kept"
      unfolding kept_def by simp
    then obtain x where x: "x \<in> set kept" and e: "key_of ks x = key_of ks r" by auto
    from count_key_one [OF dk x] e r1 show ?thesis by simp
  qed
  from a b c d1 show ?thesis unfolding ks_def by blast
qed

lemma ord_pk: "pk_cols_of [ord_id, ord_qty] = [''Id'']"
  by (simp add: pk_cols_of_def ord_id_def ord_qty_def)

lemma ord_enforced:
  "enforce_pk_fk no_lookup ord_batch [ord_id, ord_qty]
     = Inr (ord_batch\<lparr>df_rows := [[(''Id'', Num 1), (''Qty'', Num (- 3))]]\<rparr>)"
  by code_simp

theorem pk_rule_keeps_last_occurrence_witness:
  "enforce_pk_fk no_lookup ord_batch [ord_id, ord_qty]
     = Inr (ord_batch\<lparr>df_rows := [[(''Id'', Num 1), (''Qty'', Num (- 3))]]\<rparr>)
   \<and> pk_cols_of [ord_id, ord_qty] \<noteq> []
   \<and> last_with_key [''Id''] (df_rows ord_batch) [Num 1] = Some [(''Id'', Num 1), (''Qty'', Num (- 3))]
   \<and> count_key [''Id''] [[(''Id'', Num 1), (''Qty'', Num (- 3))]] [Num 1] = 1"
proof -
  have ne: "pk_cols_of [ord_id, ord_qty] \<noteq> []" by (simp add: ord_pk)
  from pk_rule_keeps_last_occurrence [OF ord_enforced ne] ord_enforced ne
  show ?thesis by (simp add: ord_pk key_of_def cell_of_def)
qed

text \<open>
  The claim as stated, with exactly one row per non-null key in the output of the
  enforcer, fails for a batch whose last row for a key has a null in a NOT NULL column.
\<close>

lemma emp_pk: "pk_cols_of [emp_id, emp_name] = [''EmpId'']"
  by (simp add: pk_cols_of_def emp_id_def emp_name_def)

lemma emp_enforced: "enforce_pk_fk no_lookup emp_batch [emp_id, emp_name] = Inr (emp_batch\<lparr>df_rows := []\<rparr>)"
  by code_simp

theorem enforcer_output_exactly_one_counterexample:
  "\<not> (\<forall>lookup df md out. enforce_pk_fk lookup df md = Inr out \<longrightarrow>
        (\<forall>r \<in> set (df_rows df). \<not> has_null (pk_cols_of md) r \<longrightarrow>
           count_key (pk_cols_of md) (df_rows out) (key_of (pk_cols_of md) r) = 1))"
proof
  assume h: "\<forall>lookup df md out. enforce_pk_fk lookup df md = Inr out \<longrightarrow>
        (\<forall>r \<in> set (df_rows df). \<not> has_null (pk_cols_of md) r \<longrightarrow>
           count_key (pk_cols_of md) (df_rows out) (key_of (pk_cols_of md) r) = 1)"
  from h emp_enforced
  have "\<forall>r \<in> set (df_rows emp_batch). \<not> has_null (pk_cols_of [emp_id, emp_name]) r \<longrightarrow>
           count_key (pk_cols_of [emp_id, emp_name]) (df_rows (emp_batch\<lparr>df_rows := []\<rparr>))
             (key_of (pk_cols_of [emp_id, emp_name]) r) = 1"
    by blast
  then show False
    by (simp add: emp_pk emp_batch_def has_null_def cell_of_def count_key_def)
qed

subsection \<open>Order of the constraint rules in Raw-to-Curated\<close>

text \<open>
  C3 (amended): \<open>load_raw_to_curated\<close> applies the no-negative filter first and the
  primary-key, not-null and foreign-key rules after it, in that order. Every row of the
  result is free of negative numbers and is the last row with its key among the rows of
  the batch that have no negative number.
\<close>

theorem no_negative_filter_runs_first:
  "load_raw_to_curated_constraints lookup df md =
     (case pk_enforcement (enforce_no_negative df) md of
        Inl e \<Rightarrow> Inl e
      | Inr d1 \<Rightarrow> Inr (fk_enforcement lookup (not_null_enforcement d1 md) md))
   \<and> (\<forall>out. load_raw_to_curated_constraints lookup df md = Inr out \<longrightarrow>
        (\<forall>r \<in> set (df_rows out).
            \<not> has_negative (df_columns df) r
          \<and> (pk_cols_of md \<noteq> [] \<longrightarrow>
               last_with_key (pk_cols_of md)
                 (filter (\<lambda>x. \<not> has_negative (df_columns df) x) (df_rows df))
                 (key_of (pk_cols_of md) r) = Some r)))"
proof -
  define nn where "nn = filter (\<lambda>x. \<not> has_negative (df_columns df) x) (df_rows df)"
  have rows: "df_rows (enforce_no_negative df) = nn"
    by (simp add: enforce_no_negative_def nn_def)
  have a: "load_raw_to_curated_constraints lookup df md =
     (case pk_enforcement (enforce_no_negative df) md of
        Inl e \<Rightarrow> Inl e
      | Inr d1 \<Rightarrow> Inr (fk_enforcement lookup (not_null_enforcement d1 md) md))"
    by (simp add: load_raw_to_curated_constraints_def enforce_pk_fk_def)
  have b: "\<not> has_negative (df_columns df) r
          \<and> (pk_cols_of md \<noteq> [] \<longrightarrow> last_with_key (pk_cols_of md) nn (key_of (pk_cols_of md) r) = Some r)"
    if o: "load_raw_to_curated_constraints lookup df md = Inr out" and r: "r \<in> set (df_rows out)"
    for out r
  proof -
    from o have e: "enforce_pk_fk lookup (enforce_no_negative df) md = Inr out"
      by (simp add: load_raw_to_curated_constraints_def)
    from enforce_pk_fk_filter [OF e] obtain df1 P
      where d1: "pk_enforcement (enforce_no_negative df) md = Inr df1"
        and o1: "out = df1\<lparr>df_rows := filter P (df_rows df1)\<rparr>" by blast
    from o1 r have r1: "r \<in> set (df_rows df1)" by simp
    show ?thesis
    proof (cases "pk_cols_of md = []")
      case True
      with d1 have "df1 = enforce_no_negative df" by (simp add: pk_enforcement_def)
      with r1 rows have "r \<in> set nn" by simp
      with True show ?thesis by (simp add: nn_def)
    next
      case False
      from pk_enforcement_rows [OF d1 False] rows r1
      have "r \<in> set (drop_duplicates_last (pk_cols_of md) (dropna (pk_cols_of md) nn))" by simp
      from kept_row_facts [OF this]
      have "r \<in> set nn" and "last_with_key (pk_cols_of md) nn (key_of (pk_cols_of md) r) = Some r"
        by simp_all
      then show ?thesis by (simp add: nn_def)
    qed
  qed
  from a b show ?thesis unfolding nn_def by blast
qed

lemma ord_loaded:
  "load_raw_to_curated_constraints no_lookup ord_batch [ord_id, ord_qty]
     = Inr (ord_batch\<lparr>df_rows := [[(''Id'', Num 1), (''Qty'', Num 5)]]\<rparr>)"
  by code_simp

lemma ord_spec_order:
  "spec_rule_order no_lookup ord_batch [ord_id, ord_qty] = Inr (ord_batch\<lparr>df_rows := []\<rparr>)"
  by code_simp

theorem no_negative_filter_runs_first_witness:
  "load_raw_to_curated_constraints no_lookup ord_batch [ord_id, ord_qty]
     = Inr (ord_batch\<lparr>df_rows := [[(''Id'', Num 1), (''Qty'', Num 5)]]\<rparr>)
   \<and> \<not> has_negative [''Id'', ''Qty''] [(''Id'', Num 1), (''Qty'', Num 5)]
   \<and> last_with_key [''Id'']
        (filter (\<lambda>x. \<not> has_negative [''Id'', ''Qty''] x) (df_rows ord_batch)) [Num 1]
       = Some [(''Id'', Num 1), (''Qty'', Num 5)]"
proof -
  have c: "df_columns ord_batch = [''Id'', ''Qty'']" by (simp add: ord_batch_def)
  from no_negative_filter_runs_first [of no_lookup ord_batch "[ord_id, ord_qty]"] ord_loaded
  show ?thesis by (simp add: ord_pk c key_of_def cell_of_def)
qed

theorem rule_order_counterexample:
  "\<not> (\<forall>lookup df md. load_raw_to_curated_constraints lookup df md = spec_rule_order lookup df md)"
proof
  assume "\<forall>lookup df md. load_raw_to_curated_constraints lookup df md = spec_rule_order lookup df md"
  then have "load_raw_to_curated_constraints no_lookup ord_batch [ord_id, ord_qty]
     = spec_rule_order no_lookup ord_batch [ord_id, ord_qty]" by blast
  with ord_loaded ord_spec_order show False by (simp add: ord_batch_def)
qed

subsection \<open>SCD2: at most one current row per key\<close>


























lemma quoted_run:
  "scd2_run two_rows_read [''Id''] [''Id'', ''Name''] [] [(Str ''t1'', Str ''t1'', quoted_batch)]
   = [[(''Id'', Str ''1''), (''Name'', Str ''a''), (''StartTime'', Str ''t1''),
       (''EndTime'', Null), (''IsCurrent'', Num 1)],
      [(''Id'', Str ''1''), (''Name'', Str ''b''), (''StartTime'', Str ''t1''),
       (''EndTime'', Null), (''IsCurrent'', Num 1)]]"
  by code_simp

lemma quoted_not_single:
  "distinct (map (key_of [''Id'']) (df_rows quoted_batch))
   \<and> list_all (\<lambda>s. \<not> has_null [''Id''] s) (df_rows quoted_batch)
   \<and> \<not> single_current [''Id'']
       [[(''Id'', Str ''1''), (''Name'', Str ''a''), (''StartTime'', Str ''t1''),
         (''EndTime'', Null), (''IsCurrent'', Num 1)],
        [(''Id'', Str ''1''), (''Name'', Str ''b''), (''StartTime'', Str ''t1''),
         (''EndTime'', Null), (''IsCurrent'', Num 1)]]"
  by code_simp

lemma quoted_batch_excluded: "\<not> batch_ok [''Id''] [''Id'', ''Name''] quoted_batch"
  by code_simp


subsection \<open>SCD1: the batch reaches the merge without deduplication\<close>

text \<open>
  C2: \<open>scd1_merge\<close> builds the \<open>VALUES\<close> list before it deduplicates the frame, so
  the \<open>MERGE\<close> receives every row of the batch. On an empty table a batch with two
  rows for the key 1 leaves two stored rows for that key, not one.
\<close>

theorem scd1_merge_keeps_duplicate_keys:
  "scd1_merge store_inj [] dup_batch [''Id''] [''Id'', ''Name'']
     = Inr [[(''Id'', Num 1), (''Name'', Str ''a'')], [(''Id'', Num 1), (''Name'', Str ''b'')]]
   \<and> count_key [''Id''] [[(''Id'', Num 1), (''Name'', Str ''a'')], [(''Id'', Num 1), (''Name'', Str ''b'')]]
        [Num 1] = 2"
  by code_simp

subsection \<open>Full loads and the incremental tracker\<close>

lemma tracker_set_rows [simp]: "IncrementalTracker (set_rows st k rs) = IncrementalTracker st"
  by (simp add: set_rows_def split: option.splits)

lemma tracker_log_start [simp]: "IncrementalTracker (log_job_start be st j s) = IncrementalTracker st"
  by (simp add: log_job_start_def)

lemma tracker_log_end [simp]: "IncrementalTracker (log_job_end be st j s n x m) = IncrementalTracker st"
  by (simp add: log_job_end_def)

lemma tracker_full_load: "IncrementalTracker (snd (full_load be st df schema table)) = IncrementalTracker st"
  by (simp add: full_load_def Let_def split: option.splits)

lemma tracker_create_one:
  "create_one be job scd0 st errs g = Inr (st', errs') \<Longrightarrow> IncrementalTracker st' = IncrementalTracker st"
  by (auto simp: create_one_def Let_def split: prod.splits sum.splits if_splits option.splits)

lemma tracker_ddl_loop:
  "ddl_loop be job scd0 gs st errs = (x, st', errs') \<Longrightarrow> IncrementalTracker st' = IncrementalTracker st"
proof (induction gs arbitrary: st errs)
  case Nil
  then show ?case by simp
next
  case (Cons g gs)
  show ?case
  proof (cases "create_one be job scd0 st errs g")
    case (Inl e)
    with Cons.prems show ?thesis by simp
  next
    case (Inr p)
    obtain st1 errs1 where p: "p = (st1, errs1)" by (cases p)
    from Cons.prems Inr p have "ddl_loop be job scd0 gs st1 errs1 = (x, st', errs')" by simp
    from Cons.IH [OF this] tracker_create_one [OF Inr [unfolded p]] show ?thesis by simp
  qed
qed

lemma tracker_create_target_tables:
  "IncrementalTracker (snd (create_target_tables be st job)) = IncrementalTracker st"
proof (cases "joined_rows (log_job_start be st job ''ddl'') job")
  case Nil
  then show ?thesis by (simp add: create_target_tables_def Let_def)
next
  case (Cons first others)
  obtain x st2 errs where l: "ddl_loop be job (SCDType (fst first))
      (group_tables (first # others)) (log_job_start be st job ''ddl'') [] = (x, st2, errs)"
    by (cases "ddl_loop be job (SCDType (fst first))
      (group_tables (first # others)) (log_job_start be st job ''ddl'') []") auto
  from tracker_ddl_loop [OF l] have "IncrementalTracker st2 = IncrementalTracker st" by simp
  with Cons l show ?thesis
    by (cases x) (simp_all add: create_target_tables_def Let_def)
qed

lemma config_log_start [simp]: "fetch_config (log_job_start be st j s) job = fetch_config st job"
  by (simp add: fetch_config_def log_job_start_def)

lemma full_load_tracker_free:
  "fst (full_load be (st\<lparr>IncrementalTracker := tr\<rparr>) df schema table) = fst (full_load be st df schema table)"
  by (simp add: full_load_def Let_def split: option.splits)

lemma full_load_success:
  assumes "tables st (tkey schema table) = Some t" and "df_columns df \<noteq> []"
    and "list_all (accepts be (tkey schema table)) (df_rows df)"
  shows "tables (snd (full_load be st df schema table)) (tkey schema table) = Some (t\<lparr>t_rows := df_rows df\<rparr>)
       \<and> r_status (fst (full_load be st df schema table)) = ''success''
       \<and> r_rows (fst (full_load be st df schema table)) = Some (length (df_rows df))"
  using assms by (auto simp: full_load_def Let_def set_rows_def df_empty_def)

lemma processed_full_tracker:
  assumes "lower (LoadType cfg) = ''full''"
    and "processed_load be st job cfg md scd df = Inr (Some (res, st'))"
  shows "IncrementalTracker st' = IncrementalTracker st"
proof -
  from assms have "(res, st') = full_load be st df (strip (TargetSchema cfg)) (strip (TargetTable cfg))"
    by (simp add: processed_load_def Let_def)
  then have "st' = snd (full_load be st df (strip (TargetSchema cfg)) (strip (TargetTable cfg)))"
    by (metis snd_conv)
  then show ?thesis by (simp add: tracker_full_load)
qed

lemma load_full_tracker:
  assumes c: "fetch_config st job = cfg # others" and f: "lower (LoadType cfg) = ''full''"
  shows "IncrementalTracker (snd (load_curated_to_processed be st job)) = IncrementalTracker st"
  using c f
  by (auto simp: load_curated_to_processed_def Let_def tracker_create_target_tables
      split: list.splits sum.splits option.splits prod.splits
      dest!: processed_full_tracker [rotated])

text \<open>
  C8: a Full load neither writes nor reads the \<open>IncrementalTracker\<close>: the tracker
  after \<open>full_load\<close> is the tracker before it, whatever the outcome, and the result
  does not depend on the tracker. When the target exists and the store accepts the
  batch, the target holds exactly the batch afterwards (truncate, then append) and the
  result reports its number of rows. The same holds for the tracker through
  \<open>load_curated_to_processed\<close> when the job's load type is \<open>full\<close>.
\<close>

theorem full_load_never_touches_tracker:
  "IncrementalTracker (snd (full_load be st df schema table)) = IncrementalTracker st
   \<and> fst (full_load be (st\<lparr>IncrementalTracker := tr\<rparr>) df schema table) = fst (full_load be st df schema table)
   \<and> (tables st (tkey schema table) = Some t \<and> df_columns df \<noteq> []
        \<and> list_all (accepts be (tkey schema table)) (df_rows df) \<longrightarrow>
          tables (snd (full_load be st df schema table)) (tkey schema table) = Some (t\<lparr>t_rows := df_rows df\<rparr>)
        \<and> r_status (fst (full_load be st df schema table)) = ''success''
        \<and> r_rows (fst (full_load be st df schema table)) = Some (length (df_rows df)))
   \<and> (fetch_config st job_name = cfg # others \<and> lower (LoadType cfg) = ''full'' \<longrightarrow>
          IncrementalTracker (snd (load_curated_to_processed be st job_name)) = IncrementalTracker st)"
proof (intro conjI impI)
  show "IncrementalTracker (snd (full_load be st df schema table)) = IncrementalTracker st"
    by (rule tracker_full_load)
  show "fst (full_load be (st\<lparr>IncrementalTracker := tr\<rparr>) df schema table) = fst (full_load be st df schema table)"
    by (rule full_load_tracker_free)
next
  assume a: "tables st (tkey schema table) = Some t \<and> df_columns df \<noteq> []
        \<and> list_all (accepts be (tkey schema table)) (df_rows df)"
  then have s: "tables (snd (full_load be st df schema table)) (tkey schema table) = Some (t\<lparr>t_rows := df_rows df\<rparr>)
       \<and> r_status (fst (full_load be st df schema table)) = ''success''
       \<and> r_rows (fst (full_load be st df schema table)) = Some (length (df_rows df))"
    by (intro full_load_success) blast+
  from s show "tables (snd (full_load be st df schema table)) (tkey schema table) = Some (t\<lparr>t_rows := df_rows df\<rparr>)"
    by simp
  from s show "r_status (fst (full_load be st df schema table)) = ''success''" by simp
  from s show "r_rows (fst (full_load be st df schema table)) = Some (length (df_rows df))" by simp
next
  assume h: "fetch_config st job_name = cfg # others \<and> lower (LoadType cfg) = ''full''"
  from h have c: "fetch_config st job_name = cfg # others" by (rule conjunct1)
  from h have f: "lower (LoadType cfg) = ''full''" by (rule conjunct2)
  from c f show "IncrementalTracker (snd (load_curated_to_processed be st job_name)) = IncrementalTracker st"
    by (rule load_full_tracker)
qed

lemma emp_full_cfg: "fetch_config (emp_store ''full'' (Some 1)) ''JOB_EMP_PROCESSED'' = emp_cfg ''full'' (Some 1) # []"
  by (simp add: fetch_config_def emp_store_def emp_cfg_def)

lemma emp_full_type: "lower (LoadType (emp_cfg ''full'' (Some 1))) = ''full''"
  by code_simp

lemma emp_full_target:
  "tables (emp_store ''full'' (Some 1)) (tkey ''processed'' ''emp'') = Some \<lparr>t_defs = [], t_rows = [old_row]\<rparr>"
  by code_simp

lemma new_batch_accepted:
  "df_columns new_batch \<noteq> [] \<and> list_all (accepts be_accept (tkey ''processed'' ''emp'')) (df_rows new_batch)"
  by code_simp

theorem full_load_never_touches_tracker_witness:
  "tables (emp_store ''full'' (Some 1)) (tkey ''processed'' ''emp'') = Some \<lparr>t_defs = [], t_rows = [old_row]\<rparr>
   \<and> df_columns new_batch \<noteq> []
   \<and> list_all (accepts be_accept (tkey ''processed'' ''emp'')) (df_rows new_batch)
   \<and> tables (snd (full_load be_accept (emp_store ''full'' (Some 1)) new_batch ''processed'' ''emp''))
        (tkey ''processed'' ''emp'') = Some \<lparr>t_defs = [], t_rows = df_rows new_batch\<rparr>
   \<and> r_rows (fst (full_load be_accept (emp_store ''full'' (Some 1)) new_batch ''processed'' ''emp'')) = Some 1
   \<and> fetch_config (emp_store ''full'' (Some 1)) ''JOB_EMP_PROCESSED'' = [emp_cfg ''full'' (Some 1)]
   \<and> lower (LoadType (emp_cfg ''full'' (Some 1))) = ''full''
   \<and> IncrementalTracker (snd (load_curated_to_processed be_accept (emp_store ''full'' (Some 1)) ''JOB_EMP_PROCESSED''))
       = IncrementalTracker (emp_store ''full'' (Some 1))"
proof -
  have l: "length (df_rows new_batch) = 1" by (simp add: new_batch_def)
  from full_load_never_touches_tracker [where be = be_accept and st = "emp_store ''full'' (Some 1)"
      and df = new_batch and schema = "''processed''" and table = "''emp''"
      and t = "\<lparr>t_defs = [], t_rows = [old_row]\<rparr>"
      and job_name = "''JOB_EMP_PROCESSED''" and cfg = "emp_cfg ''full'' (Some 1)" and others = "[]"]
    emp_full_cfg emp_full_type emp_full_target new_batch_accepted l
  show ?thesis by simp
qed

subsection \<open>What a failed load leaves behind\<close>

lemma length_lower: "length (lower s) = length s"
  by (simp add: lower_def)

lemma staging_key_differs: "tkey schema (table @ ''_staging'') \<noteq> tkey schema table"
proof
  assume "tkey schema (table @ ''_staging'') = tkey schema table"
  then have "lower (table @ ''_staging'') = lower table" by (simp add: tkey_def)
  then have "length (lower (table @ ''_staging'')) = length (lower table)" by simp
  then show False by (simp add: length_lower)
qed

lemma tables_set_rows_other: "k' \<noteq> k \<Longrightarrow> tables (set_rows st k rs) k' = tables st k'"
  by (simp add: set_rows_def split: option.splits)

lemma merge_into_failure_local:
  assumes "tables st' k = tables st k"
  shows "merge_into be st' k ks cols src = Inl e \<longleftrightarrow> merge_into be st k ks cols src = Inl e"
  using assms by (simp add: merge_into_def split: option.splits sum.splits)

lemma incremental_load_merge_fails:
  assumes ne: "df_rows df \<noteq> []" "cut_columns md df \<noteq> []"
    and d: "distinct (cut_columns md df)"
    and c: "ddl_exec be (staging_sql schema (table @ ''_staging'') (cut_columns md df)) = None"
    and s: "list_all (accepts be (tkey schema (table @ ''_staging''))) (staged_rows md df)"
    and m: "merge_into be st (tkey schema table) key_columns (cut_columns md df) (staged_rows md df) = Inl e"
  shows "incremental_load be st job_name schema table md df stage key_columns
       = (error_result e,
          st\<lparr>tables := (tables st)(tkey schema (table @ ''_staging'') \<mapsto>
                \<lparr>t_defs = staging_defs (cut_columns md df), t_rows = staged_rows md df\<rparr>)\<rparr>)"
proof -
  define staged where "staged = st\<lparr>tables := (tables st)(tkey schema (table @ ''_staging'') \<mapsto>
                \<lparr>t_defs = staging_defs (cut_columns md df), t_rows = staged_rows md df\<rparr>)\<rparr>"
  have k: "tkey schema table \<noteq> tkey schema (table @ ''_staging'')"
    using staging_key_differs [of schema table] by simp
  then have "tables staged (tkey schema table) = tables st (tkey schema table)"
    by (simp add: staged_def)
  from merge_into_failure_local [OF this] m
  have m': "merge_into be staged (tkey schema table) key_columns (cut_columns md df) (staged_rows md df) = Inl e"
    by simp
  have e: "\<not> df_empty \<lparr>df_columns = cut_columns md df, df_rows = staged_rows md df\<rparr>"
    using ne by (simp add: df_empty_def staged_rows_def)
  have st2: "set_rows (st\<lparr>tables := (tables st)(tkey schema (table @ ''_staging'') \<mapsto>
                \<lparr>t_defs = staging_defs (cut_columns md df), t_rows = []\<rparr>)\<rparr>)
               (tkey schema (table @ ''_staging'')) (staged_rows md df) = staged"
    by (simp add: set_rows_def staged_def)
  show ?thesis
    unfolding staged_def [symmetric]
    by (simp add: incremental_load_def Let_def e d c s st2 m')
qed

lemma full_load_rejected:
  assumes "tables st (tkey schema table) = Some t" and "\<not> df_empty df"
    and "\<not> list_all (accepts be (tkey schema table)) (df_rows df)"
  shows "r_status (fst (full_load be st df schema table)) = ''error''
       \<and> tables (snd (full_load be st df schema table)) (tkey schema table) = Some (t\<lparr>t_rows := []\<rparr>)"
  using assms by (simp add: full_load_def Let_def set_rows_def)

text \<open>
  C6 (amended): multi-statement loads are not all-or-nothing as a whole. When the merge
  of an incremental staged load fails after the staging load (the frame has rows and
  distinct columns, the store creates the staging table and takes the batch into it),
  the load reports the error of the merge, the target table is as it was before, and
  the staging table, the only table that changed, keeps the batch. When the store
  rejects the bulk append of a Full load, the \<open>TRUNCATE\<close> before it has committed on
  its own: the load reports an error and the target is left empty.
\<close>

theorem staged_merge_failure_keeps_target:
  "(df_rows df \<noteq> [] \<and> cut_columns md df \<noteq> [] \<and> distinct (df_columns df)
     \<and> distinct (cut_columns md df)
     \<and> ddl_exec be (staging_sql schema (table @ ''_staging'') (cut_columns md df)) = None
     \<and> list_all (accepts be (tkey schema (table @ ''_staging''))) (staged_rows md df)
     \<and> merge_into be st (tkey schema table) key_columns (cut_columns md df) (staged_rows md df) = Inl e
     \<longrightarrow>
      fst (incremental_load be st job_name schema table md df stage key_columns) = error_result e
    \<and> tables (snd (incremental_load be st job_name schema table md df stage key_columns)) (tkey schema table)
        = tables st (tkey schema table)
    \<and> tables (snd (incremental_load be st job_name schema table md df stage key_columns))
        = (tables st)(tkey schema (table @ ''_staging'') \<mapsto>
            \<lparr>t_defs = staging_defs (cut_columns md df), t_rows = staged_rows md df\<rparr>))
   \<and> (tables st (tkey schema table) = Some t \<and> \<not> df_empty df
        \<and> \<not> list_all (accepts be (tkey schema table)) (df_rows df) \<longrightarrow>
      r_status (fst (full_load be st df schema table)) = ''error''
    \<and> tables (snd (full_load be st df schema table)) (tkey schema table) = Some (t\<lparr>t_rows := []\<rparr>))"
proof (intro conjI impI)
  assume a: "df_rows df \<noteq> [] \<and> cut_columns md df \<noteq> [] \<and> distinct (df_columns df)
     \<and> distinct (cut_columns md df)
     \<and> ddl_exec be (staging_sql schema (table @ ''_staging'') (cut_columns md df)) = None
     \<and> list_all (accepts be (tkey schema (table @ ''_staging''))) (staged_rows md df)
     \<and> merge_into be st (tkey schema table) key_columns (cut_columns md df) (staged_rows md df) = Inl e"
  have r: "incremental_load be st job_name schema table md df stage key_columns
       = (error_result e,
          st\<lparr>tables := (tables st)(tkey schema (table @ ''_staging'') \<mapsto>
                \<lparr>t_defs = staging_defs (cut_columns md df), t_rows = staged_rows md df\<rparr>)\<rparr>)"
    by (rule incremental_load_merge_fails) (use a in blast)+
  have k: "tkey schema table \<noteq> tkey schema (table @ ''_staging'')"
    using staging_key_differs [of schema table] by simp
  show "fst (incremental_load be st job_name schema table md df stage key_columns) = error_result e"
    unfolding r by simp
  show "tables (snd (incremental_load be st job_name schema table md df stage key_columns)) (tkey schema table)
        = tables st (tkey schema table)"
    unfolding r using k by simp
  show "tables (snd (incremental_load be st job_name schema table md df stage key_columns))
        = (tables st)(tkey schema (table @ ''_staging'') \<mapsto>
            \<lparr>t_defs = staging_defs (cut_columns md df), t_rows = staged_rows md df\<rparr>)"
    unfolding r by simp
next
  assume h: "tables st (tkey schema table) = Some t \<and> \<not> df_empty df
        \<and> \<not> list_all (accepts be (tkey schema table)) (df_rows df)"
  then have r: "r_status (fst (full_load be st df schema table)) = ''error''
       \<and> tables (snd (full_load be st df schema table)) (tkey schema table) = Some (t\<lparr>t_rows := []\<rparr>)"
    by (intro full_load_rejected) blast+
  from r show "r_status (fst (full_load be st df schema table)) = ''error''" by (rule conjunct1)
  from r show "tables (snd (full_load be st df schema table)) (tkey schema table) = Some (t\<lparr>t_rows := []\<rparr>)"
    by (rule conjunct2)
qed

lemma reject_merge_eval:
  "(case merge_into be_reject_target (emp_store ''incremental'' (Some 0)) (tkey ''processed'' ''emp'') [''EmpId'']
           (cut_columns [emp_id, emp_name] new_batch) (staged_rows [emp_id, emp_name] new_batch) of
      Inl e \<Rightarrow> e = StoreError ''The statement has been terminated''
    | Inr s \<Rightarrow> False)"
  by code_simp

lemma reject_staging_ok:
  "df_rows new_batch \<noteq> [] \<and> cut_columns [emp_id, emp_name] new_batch \<noteq> []
   \<and> distinct (df_columns new_batch) \<and> distinct (cut_columns [emp_id, emp_name] new_batch)
   \<and> ddl_exec be_reject_target
        (staging_sql ''processed'' (''emp'' @ ''_staging'') (cut_columns [emp_id, emp_name] new_batch)) = None
   \<and> list_all (accepts be_reject_target (tkey ''processed'' (''emp'' @ ''_staging'')))
        (staged_rows [emp_id, emp_name] new_batch)"
  by code_simp

lemma reject_staged_hyps:
  "df_rows new_batch \<noteq> [] \<and> cut_columns [emp_id, emp_name] new_batch \<noteq> []
   \<and> distinct (df_columns new_batch) \<and> distinct (cut_columns [emp_id, emp_name] new_batch)
   \<and> ddl_exec be_reject_target
        (staging_sql ''processed'' (''emp'' @ ''_staging'') (cut_columns [emp_id, emp_name] new_batch)) = None
   \<and> list_all (accepts be_reject_target (tkey ''processed'' (''emp'' @ ''_staging'')))
        (staged_rows [emp_id, emp_name] new_batch)
   \<and> merge_into be_reject_target (emp_store ''incremental'' (Some 0)) (tkey ''processed'' ''emp'') [''EmpId'']
        (cut_columns [emp_id, emp_name] new_batch) (staged_rows [emp_id, emp_name] new_batch)
      = Inl (StoreError ''The statement has been terminated'')"
proof -
  from reject_merge_eval
  have "merge_into be_reject_target (emp_store ''incremental'' (Some 0)) (tkey ''processed'' ''emp'') [''EmpId'']
        (cut_columns [emp_id, emp_name] new_batch) (staged_rows [emp_id, emp_name] new_batch)
      = Inl (StoreError ''The statement has been terminated'')"
    by (simp split: sum.splits)
  with reject_staging_ok show ?thesis by blast
qed

lemma reject_target:
  "tables (emp_store ''incremental'' (Some 0)) (tkey ''processed'' ''emp'') = Some \<lparr>t_defs = [], t_rows = [old_row]\<rparr>"
  by code_simp

lemma reject_full_hyps:
  "\<not> df_empty new_batch \<and> \<not> list_all (accepts be_reject_target (tkey ''processed'' ''emp'')) (df_rows new_batch)"
  by code_simp

lemma reject_staged_rows:
  "staging_defs (cut_columns [emp_id, emp_name] new_batch) = [''[EmpId] NVARCHAR(MAX)'', ''[Name] NVARCHAR(MAX)'']
   \<and> staged_rows [emp_id, emp_name] new_batch = df_rows new_batch
   \<and> tkey ''processed'' (''emp'' @ ''_staging'') = (''processed'', ''emp_staging'')"
  by code_simp

theorem staged_merge_failure_keeps_target_witness:
  "(df_rows new_batch \<noteq> [] \<and> cut_columns [emp_id, emp_name] new_batch \<noteq> []
   \<and> distinct (df_columns new_batch) \<and> distinct (cut_columns [emp_id, emp_name] new_batch)
   \<and> ddl_exec be_reject_target
        (staging_sql ''processed'' (''emp'' @ ''_staging'') (cut_columns [emp_id, emp_name] new_batch)) = None
   \<and> list_all (accepts be_reject_target (tkey ''processed'' (''emp'' @ ''_staging'')))
        (staged_rows [emp_id, emp_name] new_batch)
   \<and> merge_into be_reject_target (emp_store ''incremental'' (Some 0)) (tkey ''processed'' ''emp'') [''EmpId'']
        (cut_columns [emp_id, emp_name] new_batch) (staged_rows [emp_id, emp_name] new_batch)
      = Inl (StoreError ''The statement has been terminated''))
   \<and> r_status (fst (incremental_load be_reject_target (emp_store ''incremental'' (Some 0)) ''JOB_EMP_PROCESSED''
      ''processed'' ''emp'' [emp_id, emp_name] new_batch ''curated_processed'' [''EmpId''])) = ''error''
   \<and> tables (snd (incremental_load be_reject_target (emp_store ''incremental'' (Some 0)) ''JOB_EMP_PROCESSED''
      ''processed'' ''emp'' [emp_id, emp_name] new_batch ''curated_processed'' [''EmpId''])) (tkey ''processed'' ''emp'')
       = Some \<lparr>t_defs = [], t_rows = [old_row]\<rparr>
   \<and> tables (snd (incremental_load be_reject_target (emp_store ''incremental'' (Some 0)) ''JOB_EMP_PROCESSED''
      ''processed'' ''emp'' [emp_id, emp_name] new_batch ''curated_processed'' [''EmpId'']))
        (''processed'', ''emp_staging'')
       = Some \<lparr>t_defs = [''[EmpId] NVARCHAR(MAX)'', ''[Name] NVARCHAR(MAX)''], t_rows = df_rows new_batch\<rparr>
   \<and> tables (emp_store ''incremental'' (Some 0)) (tkey ''processed'' ''emp'') = Some \<lparr>t_defs = [], t_rows = [old_row]\<rparr>
   \<and> \<not> df_empty new_batch
   \<and> \<not> list_all (accepts be_reject_target (tkey ''processed'' ''emp'')) (df_rows new_batch)
   \<and> r_status (fst (full_load be_reject_target (emp_store ''incremental'' (Some 0)) new_batch ''processed'' ''emp'')) = ''error''
   \<and> tables (snd (full_load be_reject_target (emp_store ''incremental'' (Some 0)) new_batch ''processed'' ''emp''))
        (tkey ''processed'' ''emp'') = Some \<lparr>t_defs = [], t_rows = []\<rparr>"
proof -
  note t = staged_merge_failure_keeps_target [where be = be_reject_target
      and st = "emp_store ''incremental'' (Some 0)"
      and job_name = "''JOB_EMP_PROCESSED''" and schema = "''processed''" and table = "''emp''"
      and md = "[emp_id, emp_name]" and df = new_batch and stage = "''curated_processed''"
      and key_columns = "[''EmpId'']" and t = "\<lparr>t_defs = [], t_rows = [old_row]\<rparr>"
      and e = "StoreError ''The statement has been terminated''"]
  from t reject_staged_hyps
  have i: "fst (incremental_load be_reject_target (emp_store ''incremental'' (Some 0)) ''JOB_EMP_PROCESSED''
      ''processed'' ''emp'' [emp_id, emp_name] new_batch ''curated_processed'' [''EmpId''])
        = error_result (StoreError ''The statement has been terminated'')
    \<and> tables (snd (incremental_load be_reject_target (emp_store ''incremental'' (Some 0)) ''JOB_EMP_PROCESSED''
      ''processed'' ''emp'' [emp_id, emp_name] new_batch ''curated_processed'' [''EmpId''])) (tkey ''processed'' ''emp'')
        = tables (emp_store ''incremental'' (Some 0)) (tkey ''processed'' ''emp'')
    \<and> tables (snd (incremental_load be_reject_target (emp_store ''incremental'' (Some 0)) ''JOB_EMP_PROCESSED''
      ''processed'' ''emp'' [emp_id, emp_name] new_batch ''curated_processed'' [''EmpId'']))
        = (tables (emp_store ''incremental'' (Some 0)))(tkey ''processed'' (''emp'' @ ''_staging'') \<mapsto>
            \<lparr>t_defs = staging_defs (cut_columns [emp_id, emp_name] new_batch),
             t_rows = staged_rows [emp_id, emp_name] new_batch\<rparr>)"
    by blast
  from t reject_target reject_full_hyps
  have f: "r_status (fst (full_load be_reject_target (emp_store ''incremental'' (Some 0)) new_batch ''processed'' ''emp'')) = ''error''
    \<and> tables (snd (full_load be_reject_target (emp_store ''incremental'' (Some 0)) new_batch ''processed'' ''emp''))
        (tkey ''processed'' ''emp'') = Some (\<lparr>t_defs = [], t_rows = [old_row]\<rparr>\<lparr>t_rows := []\<rparr>)"
    by blast
  from i have i1: "r_status (fst (incremental_load be_reject_target (emp_store ''incremental'' (Some 0)) ''JOB_EMP_PROCESSED''
      ''processed'' ''emp'' [emp_id, emp_name] new_batch ''curated_processed'' [''EmpId''])) = ''error''"
    by (simp add: error_result_def)
  from i
  have "tables (snd (incremental_load be_reject_target (emp_store ''incremental'' (Some 0)) ''JOB_EMP_PROCESSED''
      ''processed'' ''emp'' [emp_id, emp_name] new_batch ''curated_processed'' [''EmpId''])) (tkey ''processed'' ''emp'')
        = tables (emp_store ''incremental'' (Some 0)) (tkey ''processed'' ''emp'')"
    by blast
  with reject_target
  have i2: "tables (snd (incremental_load be_reject_target (emp_store ''incremental'' (Some 0)) ''JOB_EMP_PROCESSED''
      ''processed'' ''emp'' [emp_id, emp_name] new_batch ''curated_processed'' [''EmpId''])) (tkey ''processed'' ''emp'')
       = Some \<lparr>t_defs = [], t_rows = [old_row]\<rparr>"
    by simp
  from i have "tables (snd (incremental_load be_reject_target (emp_store ''incremental'' (Some 0)) ''JOB_EMP_PROCESSED''
      ''processed'' ''emp'' [emp_id, emp_name] new_batch ''curated_processed'' [''EmpId'']))
        = (tables (emp_store ''incremental'' (Some 0)))(tkey ''processed'' (''emp'' @ ''_staging'') \<mapsto>
            \<lparr>t_defs = staging_defs (cut_columns [emp_id, emp_name] new_batch),
             t_rows = staged_rows [emp_id, emp_name] new_batch\<rparr>)"
    by blast
  then have "tables (snd (incremental_load be_reject_target (emp_store ''incremental'' (Some 0)) ''JOB_EMP_PROCESSED''
      ''processed'' ''emp'' [emp_id, emp_name] new_batch ''curated_processed'' [''EmpId'']))
        (tkey ''processed'' (''emp'' @ ''_staging''))
       = Some \<lparr>t_defs = staging_defs (cut_columns [emp_id, emp_name] new_batch),
                t_rows = staged_rows [emp_id, emp_name] new_batch\<rparr>"
    by simp
  then have i3: "tables (snd (incremental_load be_reject_target (emp_store ''incremental'' (Some 0)) ''JOB_EMP_PROCESSED''
      ''processed'' ''emp'' [emp_id, emp_name] new_batch ''curated_processed'' [''EmpId'']))
        (''processed'', ''emp_staging'')
       = Some \<lparr>t_defs = [''[EmpId] NVARCHAR(MAX)'', ''[Name] NVARCHAR(MAX)''], t_rows = df_rows new_batch\<rparr>"
    using reject_staged_rows by simp
  from f have f2: "tables (snd (full_load be_reject_target (emp_store ''incremental'' (Some 0)) new_batch ''processed'' ''emp''))
        (tkey ''processed'' ''emp'') = Some \<lparr>t_defs = [], t_rows = []\<rparr>"
    by simp
  from reject_staged_hyps i1 i2 i3 reject_target reject_full_hyps f f2 show ?thesis
    by (intro conjI) blast+
qed

text \<open>
  The claim as stated, that a failed Full load leaves the prior rows of the target
  untouched, fails on a target that holds one row and a batch that the store rejects.
\<close>

theorem full_load_not_atomic_counterexample:
  "\<not> (\<forall>be st df schema table.
        r_status (fst (full_load be st df schema table)) = ''error'' \<longrightarrow>
        tables (snd (full_load be st df schema table)) (tkey schema table) = tables st (tkey schema table))"
proof
  assume h: "\<forall>be st df schema table.
        r_status (fst (full_load be st df schema table)) = ''error'' \<longrightarrow>
        tables (snd (full_load be st df schema table)) (tkey schema table) = tables st (tkey schema table)"
  have e: "r_status (fst (full_load be_reject (emp_store ''full'' (Some 1)) new_batch ''processed'' ''emp'')) = ''error''"
    by code_simp
  have a: "tables (snd (full_load be_reject (emp_store ''full'' (Some 1)) new_batch ''processed'' ''emp''))
        (tkey ''processed'' ''emp'') = Some \<lparr>t_defs = [], t_rows = []\<rparr>"
    by code_simp
  have b: "tables (emp_store ''full'' (Some 1)) (tkey ''processed'' ''emp'') = Some \<lparr>t_defs = [], t_rows = [old_row]\<rparr>"
    by code_simp
  from h e have "tables (snd (full_load be_reject (emp_store ''full'' (Some 1)) new_batch ''processed'' ''emp''))
        (tkey ''processed'' ''emp'') = tables (emp_store ''full'' (Some 1)) (tkey ''processed'' ''emp'')"
    by blast
  with a b show False by (simp add: old_row_def)
qed

subsection \<open>Incremental load into the processed layer with a null SCD type\<close>

lemma tables_log_start [simp]: "tables (log_job_start be st j s) = tables st"
  by (simp add: log_job_start_def)

lemma tables_log_end [simp]: "tables (log_job_end be st j s n x m) = tables st"
  by (simp add: log_job_end_def)

lemma metadata_log_start [simp]: "fetch_metadata (log_job_start be st j s) job = fetch_metadata st job"
  by (simp add: fetch_metadata_def log_job_start_def)

text \<open>
  C4: for a job whose configuration row has a null \<open>SCDType\<close>,
  \<open>load_curated_to_processed\<close> does not reach any load path: \<open>int(None)\<close> raises,
  the load returns an error result, and no data table (target or staging) and no tracker
  row is changed. The staged upsert is reached only for an \<open>SCDType\<close> that is a number
  other than 1 and 2.
\<close>

theorem null_scd_type_fails_the_load:
  assumes "fetch_config st job_name = cfg # others" and "fetch_metadata st job_name \<noteq> []"
    and "SCDType cfg = None"
  shows "fst (load_curated_to_processed be st job_name)
           = \<lparr>r_status = ''error'', r_rows = Some 0,
              r_message = (''int() argument must be a string, a bytes-like object or a real number, not ''
                @ [CHR 0x27] @ ''NoneType'' @ [CHR 0x27])\<rparr>
       \<and> tables (snd (load_curated_to_processed be st job_name)) = tables st
       \<and> IncrementalTracker (snd (load_curated_to_processed be st job_name)) = IncrementalTracker st"
proof -
  from assms(2) obtain m ms where m1: "fetch_metadata st job_name = m # ms"
    by (cases "fetch_metadata st job_name") auto
  have i: "int_scd_type (SCDType cfg)
      = Inl (TypeError (''int() argument must be a string, a bytes-like object or a real number, not ''
                @ [CHR 0x27] @ ''NoneType'' @ [CHR 0x27]))"
    using assms(3) by (simp add: int_scd_type_def)
  have "load_curated_to_processed be st job_name
      = (\<lparr>r_status = ''error'', r_rows = Some 0,
           r_message = (''int() argument must be a string, a bytes-like object or a real number, not ''
                @ [CHR 0x27] @ ''NoneType'' @ [CHR 0x27])\<rparr>,
         log_job_end be (log_job_start be st job_name ''curated_to_processed'') job_name
           ''curated_to_processed'' (Some 0) ''failed''
           (Some (''int() argument must be a string, a bytes-like object or a real number, not ''
                @ [CHR 0x27] @ ''NoneType'' @ [CHR 0x27])))"
    by (simp add: load_curated_to_processed_def Let_def assms(1) m1 i)
  then show ?thesis by (simp add: log_job_start_def log_job_end_def)
qed

lemma null_cfg:
  "fetch_config (emp_store ''incremental'' None) ''JOB_EMP_PROCESSED'' = [emp_cfg ''incremental'' None]"
  by (simp add: fetch_config_def emp_store_def emp_cfg_def)

lemma null_md: "fetch_metadata (emp_store ''incremental'' None) ''JOB_EMP_PROCESSED'' \<noteq> []"
  by (simp add: fetch_metadata_def emp_store_def)

lemma null_scd: "SCDType (emp_cfg ''incremental'' None) = None"
  by (simp add: emp_cfg_def)

theorem null_scd_type_fails_the_load_witness:
  "fetch_config (emp_store ''incremental'' None) ''JOB_EMP_PROCESSED'' = [emp_cfg ''incremental'' None]
   \<and> lower (LoadType (emp_cfg ''incremental'' None)) = ''incremental''
   \<and> lower (TargetSchema (emp_cfg ''incremental'' None)) = ''processed''
   \<and> SCDType (emp_cfg ''incremental'' None) = None
   \<and> r_status (fst (load_curated_to_processed be_accept (emp_store ''incremental'' None) ''JOB_EMP_PROCESSED'')) = ''error''
   \<and> tables (snd (load_curated_to_processed be_accept (emp_store ''incremental'' None) ''JOB_EMP_PROCESSED''))
        (tkey ''processed'' ''emp'') = Some \<lparr>t_defs = [], t_rows = [old_row]\<rparr>
   \<and> tables (snd (load_curated_to_processed be_accept (emp_store ''incremental'' None) ''JOB_EMP_PROCESSED''))
        (tkey ''processed'' ''emp_staging'') = None"
proof -
  have l: "lower (LoadType (emp_cfg ''incremental'' None)) = ''incremental''
         \<and> lower (TargetSchema (emp_cfg ''incremental'' None)) = ''processed''" by code_simp
  have t: "tables (emp_store ''incremental'' None) (tkey ''processed'' ''emp'') = Some \<lparr>t_defs = [], t_rows = [old_row]\<rparr>
         \<and> tables (emp_store ''incremental'' None) (tkey ''processed'' ''emp_staging'') = None"
    by code_simp
  from null_scd_type_fails_the_load [OF null_cfg null_md null_scd, of be_accept] null_cfg null_scd l t
  show ?thesis by simp
qed

subsection \<open>An unsupported column type during DDL synthesis\<close>

text \<open>
  C1: for a curated job whose second column has a type outside \<open>ALLOWED_TYPES\<close>,
  \<open>create_target_tables\<close> reports the job as failed with the message
  \<open>Unsupported data type: XYZ\<close> (the type, not the column), and still sends the
  \<open>CREATE TABLE\<close> statement built from the remaining column: a table that lacks the
  offending column exists afterwards.
\<close>

theorem unsupported_type_creates_partial_table:
  "fst (create_target_tables be_one_column bad_type_store ''JOB_EMP_CURATED'')
     = \<lparr>d_status = ''error'', d_errors = [''Unsupported data type: XYZ'']\<rparr>
   \<and> tables bad_type_store (tkey ''curated'' ''curated_emp'') = None
   \<and> tables (snd (create_target_tables be_one_column bad_type_store ''JOB_EMP_CURATED''))
        (tkey ''curated'' ''curated_emp'')
       = Some \<lparr>t_defs = [''[EmpId] INT PRIMARY KEY NOT NULL''], t_rows = []\<rparr>
   \<and> map a_status (JobAudit (snd (create_target_tables be_one_column bad_type_store ''JOB_EMP_CURATED'')))
       = [''failed'']"
  by code_simp

end
